theory Spec2Isabelle
  imports Complex_Main
begin

section \<open>Values and errors of the host language\<close>

text \<open>
  The services are classes of asynchronous methods. What a method awaits from outside
  the repository (the token provider, the remote query service, the REST API, the
  database, the clock, the random generator) is an argument of its model; what it mutates
  is passed in and returned; what it throws is the left summand of its result. The
  loggers are taken to return without throwing and leave no trace here.
\<close>

text \<open>
  An error object as the services read it: \<open>error.response\<close> (only its truthiness and
  its \<open>status\<close> are read), \<open>error.status\<close> and \<open>error.message\<close>. A property that is
  absent (\<open>undefined\<close>) is \<open>None\<close>. Statuses are numbers.
\<close>

record js_error =
  has_response :: bool
  response_status :: "int option"
  status :: "int option"
  message :: "string option"

text \<open>\<open>new Error(msg)\<close>: a message and nothing else.\<close>

definition Error :: "string \<Rightarrow> js_error" where
  "Error msg = \<lparr>has_response = False, response_status = None, status = None, message = Some msg\<rparr>"

text \<open>
  What a \<open>catch\<close> clause can receive: an error object, or \<open>undefined\<close> (the value of a
  variable that was never assigned, when it is thrown).
\<close>

datatype thrown = Thrown js_error | ThrownUndefined

text \<open>
  Values as they arrive from the remote service (decoded JSON) and as the services build
  them. Numbers are integers here: the code below only tests them against zero. An
  object is the list of its own properties in the order \<open>Object.keys\<close> gives them; none
  of the property names read below is inherited from a prototype.
\<close>

datatype jsval =
    JUndefined
  | JNull
  | JBool bool
  | JNum int
  | JStr string
  | JArr "jsval list"
  | JObj "(string \<times> jsval) list"

definition TypeError :: "string \<Rightarrow> js_error" where
  "TypeError msg = Error msg"

definition ReferenceError :: "string \<Rightarrow> js_error" where
  "ReferenceError name = Error (name @ '' is not defined'')"

definition andThen :: "'e + 'a \<Rightarrow> ('a \<Rightarrow> 'e + 'b) \<Rightarrow> 'e + 'b" where
  "andThen m f = (case m of Inl e \<Rightarrow> Inl e | Inr x \<Rightarrow> f x)"

fun truthy :: "jsval \<Rightarrow> bool" where
  "truthy JUndefined = False"
| "truthy JNull = False"
| "truthy (JBool b) = b"
| "truthy (JNum n) = (n \<noteq> 0)"
| "truthy (JStr s) = (s \<noteq> [])"
| "truthy (JArr xs) = True"
| "truthy (JObj kvs) = True"

fun nullish :: "jsval \<Rightarrow> bool" where
  "nullish JUndefined = True"
| "nullish JNull = True"
| "nullish v = False"

text \<open>\<open>a || b\<close> on values.\<close>

definition js_or :: "jsval \<Rightarrow> jsval \<Rightarrow> jsval" where
  "js_or a b = (if truthy a then a else b)"

text \<open>Decimal digits of a number, as a property key or inside a message.\<close>

definition digit :: "nat \<Rightarrow> char" where
  "digit d = ''0123456789'' ! d"

fun show_nat :: "nat \<Rightarrow> string" where
  "show_nat n = (if n < 10 then [digit n] else show_nat (n div 10) @ [digit (n mod 10)])"

declare show_nat.simps [simp del]

definition show_int :: "int \<Rightarrow> string" where
  "show_int i = (if i < 0 then CHR ''-'' # show_nat (nat (- i)) else show_nat (nat i))"

text \<open>
  \<open>v[k]\<close> on a value that is neither \<open>null\<close> nor \<open>undefined\<close>: an own property of an
  object; an element or the \<open>length\<close> of an array; a character or the \<open>length\<close> of a
  string; \<open>undefined\<close> otherwise.
\<close>

fun property :: "jsval \<Rightarrow> string \<Rightarrow> jsval" where
  "property (JObj kvs) k = (case map_of kvs k of Some v \<Rightarrow> v | None \<Rightarrow> JUndefined)"
| "property (JArr xs) k =
     (if k = ''length'' then JNum (int (length xs))
      else (case map_of (zip (map show_nat [0..<length xs]) xs) k of
              Some v \<Rightarrow> v | None \<Rightarrow> JUndefined))"
| "property (JStr s) k =
     (if k = ''length'' then JNum (int (length s))
      else (case map_of (zip (map show_nat [0..<length s]) s) k of
              Some c \<Rightarrow> JStr [c] | None \<Rightarrow> JUndefined))"
| "property v k = JUndefined"

text \<open>\<open>v.k\<close>: reading a property of \<open>null\<close> or \<open>undefined\<close> throws a TypeError.\<close>

definition get :: "jsval \<Rightarrow> string \<Rightarrow> js_error + jsval" where
  "get v k =
     (if nullish v then Inl (TypeError (''Cannot read properties of null or undefined (reading '' @ k @ '')''))
      else Inr (property v k))"

text \<open>\<open>v?.k\<close>: \<open>undefined\<close> on \<open>null\<close> and \<open>undefined\<close>.\<close>

definition optget :: "jsval \<Rightarrow> string \<Rightarrow> jsval" where
  "optget v k = (if nullish v then JUndefined else property v k)"

text \<open>\<open>Object.keys(v)\<close> of a value that is neither \<open>null\<close> nor \<open>undefined\<close>.\<close>

fun keys :: "jsval \<Rightarrow> string list" where
  "keys (JObj kvs) = map fst kvs"
| "keys (JArr xs) = map show_nat [0..<length xs]"
| "keys (JStr s) = map show_nat [0..<length s]"
| "keys v = []"

text \<open>
  \<open>row[Object.keys(row)[i]]\<close>: past the last key the index gives \<open>undefined\<close>, which as
  a property key is the name \<open>undefined\<close>.
\<close>

definition key_at :: "jsval \<Rightarrow> nat \<Rightarrow> jsval" where
  "key_at row i =
     (if i < length (keys row) then property row (keys row ! i) else property row ''undefined'')"

text \<open>
  \<open>v > 0\<close>. On a number, a boolean, \<open>null\<close> and \<open>undefined\<close> the outcome is written out.
  On a string, an array or an object the language first converts the operand to a number
  (ToPrimitive, then the grammar of numeric strings); that conversion is not written out
  again here: its outcome is the parameter \<open>conv\<close>, \<open>None\<close> when the conversion throws.
\<close>

fun gt_zero :: "(jsval \<Rightarrow> bool option) \<Rightarrow> jsval \<Rightarrow> js_error + bool" where
  "gt_zero conv (JNum n) = Inr (0 < n)"
| "gt_zero conv (JBool b) = Inr b"
| "gt_zero conv JNull = Inr False"
| "gt_zero conv JUndefined = Inr False"
| "gt_zero conv v =
     (case conv v of
        None \<Rightarrow> Inl (TypeError ''Cannot convert object to primitive value'')
      | Some b \<Rightarrow> Inr b)"

text \<open>
  \<open>v.map(f)\<close> on a value that is neither \<open>null\<close> nor \<open>undefined\<close>: only an array has a
  callable \<open>map\<close> (a decoded object can hold no function); the first \<open>f\<close> that throws ends
  the call.
\<close>

fun map_all :: "('a \<Rightarrow> 'e + 'b) \<Rightarrow> 'a list \<Rightarrow> 'e + 'b list" where
  "map_all f [] = Inr []"
| "map_all f (x # xs) =
     (case f x of
        Inl e \<Rightarrow> Inl e
      | Inr y \<Rightarrow> (case map_all f xs of Inl e \<Rightarrow> Inl e | Inr ys \<Rightarrow> Inr (y # ys)))"

fun js_map :: "jsval \<Rightarrow> (jsval \<Rightarrow> js_error + jsval) \<Rightarrow> js_error + jsval" where
  "js_map (JArr xs) f = (case map_all f xs of Inl e \<Rightarrow> Inl e | Inr ys \<Rightarrow> Inr (JArr ys))"
| "js_map v f = Inl (TypeError ''map is not a function'')"

text \<open>\<open>s.toLowerCase()\<close> and \<open>s.includes(t)\<close>, on the ASCII letters.\<close>

definition toLowerCase_char :: "char \<Rightarrow> char" where
  "toLowerCase_char c =
     (case map_of (zip ''ABCDEFGHIJKLMNOPQRSTUVWXYZ'' ''abcdefghijklmnopqrstuvwxyz'') c of
        Some l \<Rightarrow> l
      | None \<Rightarrow> c)"

definition toLowerCase :: "string \<Rightarrow> string" where
  "toLowerCase s = map toLowerCase_char s"

fun str_includes :: "string \<Rightarrow> string \<Rightarrow> bool" where
  "str_includes [] t = (t = [])"
| "str_includes (c # s) t = (take (length t) (c # s) = t \<or> str_includes s t)"

section \<open>The connection pool\<close>

text \<open>
  Dates are held by their time value in milliseconds (\<open>getTime()\<close>). \<open>new Date(x)\<close> of a value
  that is no date is an invalid date, whose time value is NaN: \<open>None\<close> here. Only
  \<open>tokenExpiry\<close> is built from outside data; \<open>createdAt\<close> and \<open>lastUsed\<close> are always
  readings of the clock.
\<close>

record conn_string =
  server :: string
  database :: string
  authentication :: string
  token :: string

record connection =
  workspaceId :: string
  tenantId :: string
  userId :: string
  accessToken :: string
  tokenExpiry :: "int option"
  endpoint :: string
  connectionString :: conn_string
  createdAt :: int
  lastUsed :: int
  usageCount :: nat
  isValid :: bool

record pool_config =
  maxPoolSize :: int
  maxConnectionAge :: int
  tokenExpiryBuffer :: int
  cleanupInterval :: int

record pool_stats =
  totalConnections :: nat
  activeConnections :: nat
  reuseCount :: nat
  expiryCount :: nat
  errorCount :: nat

text \<open>
  \<open>connectionPool\<close> is a \<open>Map\<close>: it iterates in insertion order, \<open>set\<close> on a present key
  keeps the key's place, and keys are unique. It is an association list with distinct keys;
  \<open>size\<close> is its length.
\<close>

record pool =
  connectionPool :: "(string \<times> connection) list"
  config :: pool_config
  stats :: pool_stats

text \<open>
  The constructor, from the value \<open>parseInt\<close> gives for \<open>XMLA_CONNECTION_POOL_SIZE\<close>
  (10 when the variable is unset).
\<close>

definition newPool :: "int \<Rightarrow> pool" where
  "newPool n =
     \<lparr>connectionPool = [],
      config = \<lparr>maxPoolSize = n, maxConnectionAge = 30 * 60 * 1000,
                tokenExpiryBuffer = 5 * 60 * 1000, cleanupInterval = 5 * 60 * 1000\<rparr>,
      stats = \<lparr>totalConnections = 0, activeConnections = 0, reuseCount = 0,
               expiryCount = 0, errorCount = 0\<rparr>\<rparr>"

text \<open>What the token provider \<open>OAuthTokenModel.getValidToken\<close> hands back, when it does.\<close>

record token_data =
  access_token :: string
  expires_at :: "int option"

text \<open>
  The readings of the clock that one call of \<open>getConnection\<close> can take, in the order of
  the source: in \<open>isConnectionValid\<close>, at the reuse (\<open>lastUsed\<close>), twice in
  \<open>createConnection\<close> (\<open>createdAt\<close>, \<open>lastUsed\<close>), and in \<open>findOldestConnection\<close>.
\<close>

record clock =
  at_check :: int
  at_reuse :: int
  at_created :: int
  at_lastUsed :: int
  at_oldest :: int

definition Map_has :: "(string \<times> 'v) list \<Rightarrow> string \<Rightarrow> bool" where
  "Map_has m k = (map_of m k \<noteq> None)"

definition Map_get :: "(string \<times> 'v) list \<Rightarrow> string \<Rightarrow> 'v option" where
  "Map_get m k = map_of m k"

definition Map_delete :: "(string \<times> 'v) list \<Rightarrow> string \<Rightarrow> (string \<times> 'v) list" where
  "Map_delete m k = filter (\<lambda>e. fst e \<noteq> k) m"

fun Map_set :: "(string \<times> 'v) list \<Rightarrow> string \<Rightarrow> 'v \<Rightarrow> (string \<times> 'v) list" where
  "Map_set [] k v = [(k, v)]"
| "Map_set (e # m) k v = (if fst e = k then (k, v) # m else e # Map_set m k v)"

definition Map_size :: "(string \<times> 'v) list \<Rightarrow> int" where
  "Map_size m = int (length m)"

definition getConnectionKey :: "string \<Rightarrow> string \<Rightarrow> string \<Rightarrow> string" where
  "getConnectionKey tid wid uid = tid @ '':'' @ wid @ '':'' @ uid"

definition buildXMLAEndpoint :: "string \<Rightarrow> string" where
  "buildXMLAEndpoint wid = ''powerbi://api.powerbi.com/v1.0/myorg/'' @ wid"

definition buildConnectionString :: "string \<Rightarrow> string \<Rightarrow> conn_string" where
  "buildConnectionString wid tok =
     \<lparr>server = ''powerbi://api.powerbi.com/v1.0/myorg/'' @ wid,
      database = wid,
      authentication = ''Bearer Token'',
      token = tok\<rparr>"

text \<open>
  \<open>isConnectionValid\<close>, with the reading \<open>now\<close> of the clock it takes. A comparison with
  NaN is false, so an invalid \<open>tokenExpiry\<close> passes the first check.
\<close>

definition isConnectionValid :: "pool_config \<Rightarrow> int \<Rightarrow> connection \<Rightarrow> bool" where
  "isConnectionValid cfg now c =
     (if (case tokenExpiry c of None \<Rightarrow> False | Some e \<Rightarrow> e - now < tokenExpiryBuffer cfg)
      then False
      else if now - createdAt c > maxConnectionAge cfg then False
      else if \<not> isValid c then False
      else True)"

text \<open>
  \<open>createConnection\<close>: the provider's answer is \<open>None\<close> when it has no token. The two
  timestamps are two readings of the clock.
\<close>

definition createConnection ::
  "clock \<Rightarrow> token_data option \<Rightarrow> string \<Rightarrow> string \<Rightarrow> string \<Rightarrow> js_error + connection" where
  "createConnection clk tokenData uid tid wid =
     (case tokenData of
        None \<Rightarrow> Inl (Error ''No valid Power BI token found. Please reconnect your Power BI account.'')
      | Some td \<Rightarrow>
          Inr \<lparr>workspaceId = wid, tenantId = tid, userId = uid,
               accessToken = access_token td,
               tokenExpiry = expires_at td,
               endpoint = buildXMLAEndpoint wid,
               connectionString = buildConnectionString wid (access_token td),
               createdAt = at_created clk,
               lastUsed = at_lastUsed clk,
               usageCount = 0,
               isValid = True\<rparr>)"

text \<open>
  The loop of \<open>findOldestConnection\<close>, carrying \<open>(oldestKey, oldestTime)\<close>; \<open>oldestTime\<close>
  starts at the clock's reading and a key is taken only when strictly older.
\<close>

fun oldest_scan ::
  "(string \<times> connection) list \<Rightarrow> string option \<times> int \<Rightarrow> string option \<times> int" where
  "oldest_scan [] acc = acc"
| "oldest_scan ((key, c) # es) (oldestKey, oldestTime) =
     (if lastUsed c < oldestTime then oldest_scan es (Some key, lastUsed c)
      else oldest_scan es (oldestKey, oldestTime))"

definition findOldestConnection :: "(string \<times> connection) list \<Rightarrow> int \<Rightarrow> string option" where
  "findOldestConnection m now = fst (oldest_scan m (None, now))"

text \<open>
  The first block of \<open>getConnection\<close> (the lookup): \<open>Some\<close> connection when a valid one is
  reused (the early return), otherwise \<open>None\<close>, the stale entry deleted.
\<close>

definition lookupConnection ::
  "clock \<Rightarrow> string \<Rightarrow> pool \<Rightarrow> connection option \<times> pool" where
  "lookupConnection clk connectionKey p =
     (if Map_has (connectionPool p) connectionKey then
        (case Map_get (connectionPool p) connectionKey of
           None \<Rightarrow> (None, p)
         | Some c \<Rightarrow>
             if isConnectionValid (config p) (at_check clk) c then
               (let c' = c\<lparr>lastUsed := at_reuse clk, usageCount := usageCount c + 1\<rparr>
                in (Some c',
                    p\<lparr>connectionPool := Map_set (connectionPool p) connectionKey c',
                      stats := (stats p)\<lparr>reuseCount := reuseCount (stats p) + 1\<rparr>\<rparr>))
             else
               (None,
                p\<lparr>connectionPool := Map_delete (connectionPool p) connectionKey,
                  stats := (stats p)\<lparr>expiryCount := expiryCount (stats p) + 1\<rparr>\<rparr>))
      else (None, p))"

text \<open>
  The second block (the insertion of a new connection): below capacity it is added; at
  capacity the key found by \<open>findOldestConnection\<close>, if there is one (\<open>if (oldestKey)\<close>:
  neither \<open>null\<close> nor the empty string), is deleted first, and the connection is added
  whether or not a key was deleted.
\<close>

definition addConnection :: "clock \<Rightarrow> string \<Rightarrow> connection \<Rightarrow> pool \<Rightarrow> pool" where
  "addConnection clk connectionKey c p =
     (let m = connectionPool p;
          m' = (if Map_size m < maxPoolSize (config p) then Map_set m connectionKey c
                else (case findOldestConnection m (at_oldest clk) of
                        None \<Rightarrow> Map_set m connectionKey c
                      | Some oldestKey \<Rightarrow>
                          if oldestKey \<noteq> [] then Map_set (Map_delete m oldestKey) connectionKey c
                          else Map_set m connectionKey c))
      in p\<lparr>connectionPool := m',
           stats := (stats p)\<lparr>totalConnections := totalConnections (stats p) + 1,
                              activeConnections := length m'\<rparr>\<rparr>)"

definition getConnection ::
  "clock \<Rightarrow> token_data option \<Rightarrow> string \<Rightarrow> string \<Rightarrow> string \<Rightarrow> pool \<Rightarrow>
     (js_error + connection) \<times> pool" where
  "getConnection clk tokenData uid tid wid p =
     (let connectionKey = getConnectionKey tid wid uid in
      case lookupConnection clk connectionKey p of
        (Some c, p1) \<Rightarrow> (Inr c, p1)
      | (None, p1) \<Rightarrow>
          (case createConnection clk tokenData uid tid wid of
             Inl e \<Rightarrow> (Inl e, p1\<lparr>stats := (stats p1)\<lparr>errorCount := errorCount (stats p1) + 1\<rparr>\<rparr>)
           | Inr c \<Rightarrow> (Inr c, addConnection clk connectionKey c p1)))"

text \<open>\<open>invalidateConnection\<close> flips the flag of the entry in place, when there is one.\<close>

definition invalidateConnection :: "string \<Rightarrow> string \<Rightarrow> string \<Rightarrow> pool \<Rightarrow> pool" where
  "invalidateConnection uid tid wid p =
     (let connectionKey = getConnectionKey tid wid uid in
      if Map_has (connectionPool p) connectionKey then
        (case Map_get (connectionPool p) connectionKey of
           None \<Rightarrow> p
         | Some c \<Rightarrow> p\<lparr>connectionPool := Map_set (connectionPool p) connectionKey (c\<lparr>isValid := False\<rparr>)\<rparr>)
      else p)"

section \<open>The query executor\<close>

text \<open>
  \<open>retryConfig\<close>. \<open>maxRetries\<close> and \<open>timeout\<close> come from \<open>parseInt\<close> of the environment;
  where that gives NaN every comparison with it is false, which for the loop below is the
  behaviour of \<open>maxRetries = 0\<close>. The two delays are the millisecond counts 1000 and 10000.
\<close>

record retry_config =
  maxRetries :: int
  baseDelay :: nat
  maxDelay :: nat
  timeout :: int

record query_stats =
  totalQueries :: nat
  successfulQueries :: nat
  failedQueries :: nat
  retriedQueries :: nat
  totalExecutionTime :: int

text \<open>
  What a call of the executor does to the outside, as events: a remote attempt (with its
  number), a sleep (with its delay), a call of the pool's \<open>invalidateConnection\<close> (with
  its arguments \<open>userId\<close>, \<open>tenantId\<close>, \<open>workspaceId\<close>).
\<close>

datatype event = Attempt nat | Sleep int | Invalidate string string string

text \<open>
  The executor: its configuration, its counters (\<open>this.stats\<close>), the pool it shares
  (\<open>this.connectionPool\<close>), and the events so far, oldest first.
\<close>

record executor =
  retryConfig :: retry_config
  queryStats :: query_stats
  poolService :: pool
  events :: "event list"

text \<open>
  What one remote attempt comes to, in the race of \<open>executeSingleQuery\<close>: the service
  answers, it rejects with an error object, or the timer fires first.
\<close>

datatype attempt_outcome = Responded jsval | Failed js_error | TimedOut

text \<open>
  The surroundings of one call of \<open>executeWithRetry\<close>: the outcome of the attempt with a
  given number, the draw of \<open>Math.random\<close> after it, and the binding of the identifier
  \<open>tenantId\<close> in the global scope, if there is one. \<open>executeWithRetry\<close> has the parameters
  \<open>(userId, workspaceId, datasetId, daxQuery, connection)\<close> and the module declares no
  \<open>tenantId\<close>, so the identifier resolves in the global scope or not at all.
\<close>

record surroundings =
  remote :: "nat \<Rightarrow> attempt_outcome"
  random :: "nat \<Rightarrow> real"
  global_tenantId :: "string option"

text \<open>
  The constructor, from the values \<open>parseInt\<close> gives for \<open>XMLA_MAX_RETRIES\<close> (3 when
  unset) and \<open>XMLA_QUERY_TIMEOUT\<close> (30000 when unset), and the pool.
\<close>

definition newExecutor :: "int \<Rightarrow> int \<Rightarrow> pool \<Rightarrow> executor" where
  "newExecutor retries ms p =
     \<lparr>retryConfig = \<lparr>maxRetries = retries, baseDelay = 1000, maxDelay = 10000, timeout = ms\<rparr>,
      queryStats = \<lparr>totalQueries = 0, successfulQueries = 0, failedQueries = 0,
                    retriedQueries = 0, totalExecutionTime = 0\<rparr>,
      poolService = p,
      events = []\<rparr>"

definition executeSingleQuery :: "retry_config \<Rightarrow> attempt_outcome \<Rightarrow> js_error + jsval" where
  "executeSingleQuery cfg oc =
     (case oc of
        Responded r \<Rightarrow> Inr r
      | Failed e \<Rightarrow> Inl e
      | TimedOut \<Rightarrow> Inl (Error (''Query timeout after '' @ show_int (timeout cfg) @ ''ms'')))"

text \<open>\<open>error.response?.status || error.status\<close>.\<close>

definition status_of :: "js_error \<Rightarrow> int option" where
  "status_of e =
     (case (if has_response e then response_status e else None) of
        Some n \<Rightarrow> if n \<noteq> 0 then Some n else status e
      | None \<Rightarrow> status e)"

text \<open>\<open>error.message?.toLowerCase() || ''\<close>.\<close>

definition errorMessage :: "js_error \<Rightarrow> string" where
  "errorMessage e = (case message e of None \<Rightarrow> [] | Some m \<Rightarrow> toLowerCase m)"

definition isRetryableError :: "js_error \<Rightarrow> bool" where
  "isRetryableError e =
     (if \<not> has_response e then True
      else if (case status_of e of None \<Rightarrow> False | Some n \<Rightarrow> n \<ge> 500) then True
      else if status_of e = Some 429 then True
      else if status_of e = Some 408 then True
      else if status_of e = Some 503 then True
      else if str_includes (errorMessage e) ''timeout''
            \<or> str_includes (errorMessage e) ''temporarily unavailable''
            \<or> str_includes (errorMessage e) ''capacity limit'' then True
      else False)"

definition shouldInvalidateConnection :: "js_error \<Rightarrow> bool" where
  "shouldInvalidateConnection e =
     (if status_of e = Some 401 \<or> status_of e = Some 403 then True
      else if str_includes (errorMessage e) ''token''
            \<or> str_includes (errorMessage e) ''authentication''
            \<or> str_includes (errorMessage e) ''authorization'' then True
      else False)"

text \<open>
  \<open>calculateBackoffDelay(attempt)\<close> with the draw \<open>r\<close> of \<open>Math.random()\<close>, in exact
  arithmetic. \<open>Math.pow(2, attempt - 1)\<close> is a half at attempt 0.
\<close>

definition backoffBase :: "retry_config \<Rightarrow> nat \<Rightarrow> real" where
  "backoffBase cfg attempt =
     min (if attempt = 0 then real (baseDelay cfg) / 2
          else real (baseDelay cfg) * 2 ^ (attempt - 1))
         (real (maxDelay cfg))"

definition calculateBackoffDelay :: "retry_config \<Rightarrow> nat \<Rightarrow> real \<Rightarrow> int" where
  "calculateBackoffDelay cfg attempt r =
     (let delay = backoffBase cfg attempt;
          jitter = delay * 0.2 * r
      in \<lfloor>delay + jitter\<rfloor>)"

text \<open>
  The loop of \<open>executeWithRetry\<close>, from the values of \<open>attempt\<close> and \<open>lastError\<close> at the
  loop's head. The result is what the call returns (\<open>Inr\<close>) or throws (\<open>Inl\<close>).
  In the \<open>catch\<close> clause the order is: record the error, leave the loop when it is
  not retryable, leave it when the attempts are used up, sleep, and only then look at
  \<open>shouldInvalidateConnection\<close>; the argument \<open>tenantId\<close> of the call of
  \<open>invalidateConnection\<close> is evaluated before the call, and throws a ReferenceError out of
  the \<open>catch\<close> clause when the identifier is unbound.
\<close>

function retryLoop ::
  "surroundings \<Rightarrow> string \<Rightarrow> string \<Rightarrow> nat \<Rightarrow> js_error option \<Rightarrow> executor \<Rightarrow>
     (thrown + jsval) \<times> executor" where
  "retryLoop env uid wid attempt lastError x =
     (if int attempt < maxRetries (retryConfig x) then
        (let attempt' = attempt + 1;
             x1 = x\<lparr>events := events x @ [Attempt attempt']\<rparr>
         in case executeSingleQuery (retryConfig x) (remote env attempt') of
              Inr result \<Rightarrow>
                (Inr result,
                 if attempt' > 1
                 then x1\<lparr>queryStats := (queryStats x1)\<lparr>retriedQueries := retriedQueries (queryStats x1) + 1\<rparr>\<rparr>
                 else x1)
            | Inl error \<Rightarrow>
                if \<not> isRetryableError error then (Inl (Thrown error), x1)
                else if int attempt' \<ge> maxRetries (retryConfig x) then (Inl (Thrown error), x1)
                else
                  (let delay = calculateBackoffDelay (retryConfig x) attempt' (random env attempt');
                       x2 = x1\<lparr>events := events x1 @ [Sleep delay]\<rparr>
                   in if shouldInvalidateConnection error then
                        (case global_tenantId env of
                           None \<Rightarrow> (Inl (Thrown (ReferenceError ''tenantId'')), x2)
                         | Some tid \<Rightarrow>
                             retryLoop env uid wid attempt' (Some error)
                               (x2\<lparr>poolService := invalidateConnection uid tid wid (poolService x2),
                                   events := events x2 @ [Invalidate uid tid wid]\<rparr>))
                      else retryLoop env uid wid attempt' (Some error) x2))
      else (Inl (case lastError of None \<Rightarrow> ThrownUndefined | Some e \<Rightarrow> Thrown e), x))"
  by pat_completeness auto
termination
  by (relation "measure (\<lambda>(env, uid, wid, attempt, lastError, x).
        nat (maxRetries (retryConfig x) - int attempt))") auto

declare retryLoop.simps [simp del]

definition executeWithRetry ::
  "surroundings \<Rightarrow> string \<Rightarrow> string \<Rightarrow> executor \<Rightarrow> (thrown + jsval) \<times> executor" where
  "executeWithRetry env uid wid x = retryLoop env uid wid 0 None x"

text \<open>
  The body of the \<open>try\<close> block of \<open>extractRowCount\<close>: \<open>Inl\<close> where an access throws.
  \<open>a && b\<close> stops at the first falsy operand.
\<close>

definition rowCountBody :: "(jsval \<Rightarrow> bool option) \<Rightarrow> jsval \<Rightarrow> js_error + jsval" where
  "rowCountBody conv result =
     (if \<not> truthy result then Inr (JNum 0)
      else if \<not> truthy (property result ''results'') then Inr (JNum 0)
      else
        andThen (gt_zero conv (property (property result ''results'') ''length'')) (\<lambda>some.
          if \<not> some then Inr (JNum 0)
          else
            (let firstResult = property (property result ''results'') ''0'' in
             andThen (get firstResult ''tables'') (\<lambda>tables.
               if \<not> truthy tables then Inr (JNum 0)
               else
                 andThen (gt_zero conv (property tables ''length'')) (\<lambda>some'.
                   if \<not> some' then Inr (JNum 0)
                   else
                     andThen (get (property tables ''0'') ''rows'') (\<lambda>rows.
                       Inr (if truthy rows then property rows ''length'' else JNum 0)))))))"

text \<open>\<open>extractRowCount\<close>: the \<open>catch\<close> clause turns every throw into 0.\<close>

definition extractRowCount :: "(jsval \<Rightarrow> bool option) \<Rightarrow> jsval \<Rightarrow> jsval" where
  "extractRowCount conv result =
     (case rowCountBody conv result of Inl e \<Rightarrow> JNum 0 | Inr v \<Rightarrow> v)"

text \<open>
  For the statements about \<open>extractRowCount\<close>: the value at
  \<open>result.results[0].tables[0].rows\<close> (\<open>undefined\<close> where the path breaks off), and
  what counts as a row count (a number that is not negative).
\<close>

definition nestedRows :: "jsval \<Rightarrow> jsval" where
  "nestedRows result =
     property (property (property (property (property result ''results'') ''0'') ''tables'') ''0'')
       ''rows''"

fun is_count :: "jsval \<Rightarrow> bool" where
  "is_count (JNum n) = (0 \<le> n)"
| "is_count v = False"

text \<open>
  When the path \<open>result.results[0].tables[0]\<close> is there to be read, in the words of the
  tests the function makes on its way: \<open>result\<close> and \<open>result.results\<close> are truthy,
  \<open>results.length\<close> is above zero, \<open>results[0]\<close> is neither \<open>null\<close> nor \<open>undefined\<close>, its
  \<open>tables\<close> is truthy with a \<open>length\<close> above zero, and \<open>tables[0]\<close> is neither \<open>null\<close> nor
  \<open>undefined\<close>.
\<close>

definition pathReached :: "(jsval \<Rightarrow> bool option) \<Rightarrow> jsval \<Rightarrow> bool" where
  "pathReached conv result \<longleftrightarrow>
     truthy result
     \<and> truthy (property result ''results'')
     \<and> gt_zero conv (property (property result ''results'') ''length'') = Inr True
     \<and> \<not> nullish (property (property result ''results'') ''0'')
     \<and> truthy (property (property (property result ''results'') ''0'') ''tables'')
     \<and> gt_zero conv
           (property (property (property (property result ''results'') ''0'') ''tables'') ''length'')
         = Inr True
     \<and> \<not> nullish
           (property (property (property (property result ''results'') ''0'') ''tables'') ''0'')"

text \<open>
  The \<open>catch\<close> clause of \<open>executeDAXQuery\<close>: the counter first, then \<open>error.message\<close>,
  which throws a TypeError when the value caught is \<open>undefined\<close>.
\<close>

definition queryFailed ::
  "string \<Rightarrow> int \<Rightarrow> thrown \<Rightarrow> executor \<Rightarrow> (thrown + jsval) \<times> executor" where
  "queryFailed daxQuery executionTime t x =
     (let x' = x\<lparr>queryStats := (queryStats x)\<lparr>failedQueries := failedQueries (queryStats x) + 1\<rparr>\<rparr>
      in case t of
           ThrownUndefined \<Rightarrow>
             (Inl (Thrown (TypeError ''Cannot read properties of undefined (reading message)'')), x')
         | Thrown e \<Rightarrow>
             (Inr (JObj [(''success'', JBool False),
                         (''query'', JStr daxQuery),
                         (''error'', (case message e of None \<Rightarrow> JUndefined | Some m \<Rightarrow> JStr m)),
                         (''executionTimeMs'', JNum executionTime)]),
              x'))"

text \<open>
  \<open>executeDAXQuery\<close> is an \<open>async\<close> function: a call runs up to its first \<open>await\<close>, and
  other calls can start or finish before it goes on (\<open>executeBatchQueries\<close> starts all its
  calls before any of them finishes). The start of a call reads the clock and counts the
  call.
\<close>

definition beginDAXQuery :: "executor \<Rightarrow> executor" where
  "beginDAXQuery x =
     x\<lparr>queryStats := (queryStats x)\<lparr>totalQueries := totalQueries (queryStats x) + 1\<rparr>\<rparr>"

text \<open>
  The rest of the call. Beside the arguments of the source: the conversion \<open>conv\<close> (see
  \<open>gt_zero\<close>), the surroundings of the retry loop, the clock readings and the token
  provider's answer for \<open>getConnection\<close>, and the two readings \<open>Date.now()\<close> at the start
  and at the end of the call.
\<close>

definition completeDAXQuery ::
  "(jsval \<Rightarrow> bool option) \<Rightarrow> surroundings \<Rightarrow> clock \<Rightarrow> token_data option \<Rightarrow> int \<Rightarrow> int \<Rightarrow>
     string \<Rightarrow> string \<Rightarrow> string \<Rightarrow> string \<Rightarrow> string \<Rightarrow> executor \<Rightarrow>
     (thrown + jsval) \<times> executor" where
  "completeDAXQuery conv env clk tokenData startTime endTime uid tid wid did daxQuery x0 =
     (case getConnection clk tokenData uid tid wid (poolService x0) of
        (Inl e, p1) \<Rightarrow> queryFailed daxQuery (endTime - startTime) (Thrown e) (x0\<lparr>poolService := p1\<rparr>)
      | (Inr connection, p1) \<Rightarrow>
          (case executeWithRetry env uid wid (x0\<lparr>poolService := p1\<rparr>) of
             (Inl t, x1) \<Rightarrow> queryFailed daxQuery (endTime - startTime) t x1
           | (Inr result, x1) \<Rightarrow>
               (let executionTime = endTime - startTime;
                    x2 = x1\<lparr>queryStats := (queryStats x1)
                           \<lparr>successfulQueries := successfulQueries (queryStats x1) + 1,
                            totalExecutionTime := totalExecutionTime (queryStats x1) + executionTime\<rparr>\<rparr>
                in (Inr (JObj [(''success'', JBool True),
                               (''query'', JStr daxQuery),
                               (''results'', result),
                               (''executionTimeMs'', JNum executionTime),
                               (''metadata'',
                                  JObj [(''workspaceId'', JStr wid),
                                        (''datasetId'', JStr did),
                                        (''rowCount'', extractRowCount conv result)])]),
                    x2))))"

text \<open>A call that nothing interleaves with.\<close>

definition executeDAXQuery ::
  "(jsval \<Rightarrow> bool option) \<Rightarrow> surroundings \<Rightarrow> clock \<Rightarrow> token_data option \<Rightarrow> int \<Rightarrow> int \<Rightarrow>
     string \<Rightarrow> string \<Rightarrow> string \<Rightarrow> string \<Rightarrow> string \<Rightarrow> executor \<Rightarrow>
     (thrown + jsval) \<times> executor" where
  "executeDAXQuery conv env clk tokenData startTime endTime uid tid wid did daxQuery x =
     completeDAXQuery conv env clk tokenData startTime endTime uid tid wid did daxQuery
       (beginDAXQuery x)"

definition resetStats :: "executor \<Rightarrow> executor" where
  "resetStats x =
     x\<lparr>queryStats := \<lparr>totalQueries = 0, successfulQueries = 0, failedQueries = 0,
                       retriedQueries = 0, totalExecutionTime = 0\<rparr>\<rparr>"

text \<open>The equation between the three counters.\<close>

definition counters_add_up :: "executor \<Rightarrow> bool" where
  "counters_add_up x \<longleftrightarrow>
     totalQueries (queryStats x) = successfulQueries (queryStats x) + failedQueries (queryStats x)"

text \<open>By how much \<open>totalQueries\<close> is ahead of the two other counters together.\<close>

definition ahead :: "executor \<Rightarrow> int" where
  "ahead x =
     int (totalQueries (queryStats x))
       - (int (successfulQueries (queryStats x)) + int (failedQueries (queryStats x)))"

text \<open>
  Calls that overlap. The arguments of one call, as \<open>completeDAXQuery\<close> takes them; and
  the steps the executor can take one after the other: a call starts, a call that has
  started runs to its end, \<open>resetStats\<close> is called.
\<close>

record call =
  arg_conv :: "jsval \<Rightarrow> bool option"
  arg_env :: surroundings
  arg_clock :: clock
  arg_token :: "token_data option"
  arg_start :: int
  arg_end :: int
  arg_userId :: string
  arg_tenantId :: string
  arg_workspaceId :: string
  arg_datasetId :: string
  arg_query :: string

datatype step = Begin | Complete call | Reset

fun perform :: "step \<Rightarrow> executor \<Rightarrow> executor" where
  "perform Begin x = beginDAXQuery x"
| "perform (Complete c) x =
     snd (completeDAXQuery (arg_conv c) (arg_env c) (arg_clock c) (arg_token c) (arg_start c)
            (arg_end c) (arg_userId c) (arg_tenantId c) (arg_workspaceId c) (arg_datasetId c)
            (arg_query c) x)"
| "perform Reset x = resetStats x"

fun run :: "step list \<Rightarrow> executor \<Rightarrow> executor" where
  "run [] x = x"
| "run (s # ss) x = run ss (perform s x)"

text \<open>
  With \<open>k\<close> calls in flight before them, the number of calls in flight after some steps;
  and the runs in which only a call that has started completes, and \<open>resetStats\<close> is
  called only while no call is in flight.
\<close>

fun in_flight :: "nat \<Rightarrow> step list \<Rightarrow> nat" where
  "in_flight k [] = k"
| "in_flight k (Begin # ss) = in_flight (k + 1) ss"
| "in_flight k (Complete c # ss) = in_flight (k - 1) ss"
| "in_flight k (Reset # ss) = in_flight k ss"

fun orderly :: "nat \<Rightarrow> step list \<Rightarrow> bool" where
  "orderly k [] = True"
| "orderly k (Begin # ss) = orderly (k + 1) ss"
| "orderly k (Complete c # ss) = (0 < k \<and> orderly (k - 1) ss)"
| "orderly k (Reset # ss) = (k = 0 \<and> orderly k ss)"

text \<open>The number of remote attempts among some events.\<close>

fun is_attempt :: "event \<Rightarrow> bool" where
  "is_attempt (Attempt n) = True"
| "is_attempt e = False"

fun is_invalidate :: "event \<Rightarrow> bool" where
  "is_invalidate (Invalidate uid tid wid) = True"
| "is_invalidate e = False"

definition attempts :: "event list \<Rightarrow> nat" where
  "attempts es = length (filter is_attempt es)"

definition invalidations :: "event list \<Rightarrow> event list" where
  "invalidations es = filter is_invalidate es"

section \<open>The metadata extractor\<close>

text \<open>
  The extractor awaits three outside services: the executor (\<open>executeDAXQuery\<close>), the REST
  API (\<open>makeRequest\<close>) and the database. What each await comes to is an input here: the
  value it resolves with (\<open>Inr\<close>) or the value it rejects with (\<open>Inl\<close>). Each extractor
  gives back what its promise settles with, and the REST paths it requested.
\<close>

text \<open>
  \<open>error.message\<close> inside a \<open>catch\<close> clause (the loggers' argument): a TypeError when the
  value caught is \<open>undefined\<close>.
\<close>

definition message_read :: "thrown \<Rightarrow> js_error option" where
  "message_read t =
     (case t of
        ThrownUndefined \<Rightarrow> Some (TypeError ''Cannot read properties of undefined (reading message)'')
      | Thrown e \<Rightarrow> None)"

text \<open>
  The test \<open>result.success && result.results?.results?.[0]?.tables?.[0]?.rows\<close>:
  \<open>Some rows\<close> when it is truthy.
\<close>

definition primaryRows :: "jsval \<Rightarrow> js_error + jsval option" where
  "primaryRows result =
     andThen (get result ''success'') (\<lambda>success.
       if \<not> truthy success then Inr None
       else
         (let rows = optget (optget (optget (optget (optget (property result ''results'')
                        ''results'') ''0'') ''tables'') ''0'') ''rows''
          in Inr (if truthy rows then Some rows else None)))"

definition tableOfRow :: "jsval \<Rightarrow> js_error + jsval" where
  "tableOfRow row =
     (if nullish row then Inl (TypeError ''Cannot read properties of null or undefined'')
      else Inr (JObj [(''name'', js_or (property row ''TableName'') (key_at row 0)),
                      (''type'', js_or (property row ''TableType'') (JStr ''TABLE'')),
                      (''description'', js_or (property row ''Description'') (JStr [])),
                      (''columnCount'', JNum 0)]))"

definition columnOfRow :: "jsval \<Rightarrow> js_error + jsval" where
  "columnOfRow row =
     (if nullish row then Inl (TypeError ''Cannot read properties of null or undefined'')
      else Inr (JObj [(''tableName'', js_or (property row ''TableName'') (key_at row 0)),
                      (''name'', js_or (property row ''ColumnName'') (key_at row 1)),
                      (''dataType'', js_or (property row ''DataType'') (JStr ''Unknown'')),
                      (''description'', js_or (property row ''Description'') (JStr [])),
                      (''isHidden'', js_or (property row ''IsHidden'') (JBool False))]))"

definition measureOfRow :: "jsval \<Rightarrow> js_error + jsval" where
  "measureOfRow row =
     (if nullish row then Inl (TypeError ''Cannot read properties of null or undefined'')
      else Inr (JObj [(''name'', js_or (property row ''MeasureName'') (key_at row 0)),
                      (''tableName'', js_or (property row ''TableName'') (JStr [])),
                      (''expression'', js_or (property row ''Expression'') (JStr [])),
                      (''description'', js_or (property row ''Description'') (JStr [])),
                      (''dataType'', js_or (property row ''DataType'') (JStr ''Variant''))]))"

definition relationshipOfRow :: "jsval \<Rightarrow> js_error + jsval" where
  "relationshipOfRow row =
     (if nullish row then Inl (TypeError ''Cannot read properties of null or undefined'')
      else Inr (JObj [(''name'', js_or (property row ''RelationshipName'') (JStr [])),
                      (''fromTable'', js_or (property row ''FromTable'') (key_at row 1)),
                      (''fromColumn'', js_or (property row ''FromColumn'') (key_at row 2)),
                      (''toTable'', js_or (property row ''ToTable'') (key_at row 3)),
                      (''toColumn'', js_or (property row ''ToColumn'') (key_at row 4)),
                      (''crossFilterDirection'',
                         js_or (property row ''CrossFilterDirection'') (JStr ''Single'')),
                      (''isActive'', JBool (property row ''IsActive'' \<noteq> JBool False))]))"

definition columnOfREST :: "jsval \<Rightarrow> js_error + jsval" where
  "columnOfREST col =
     (if nullish col then Inl (TypeError ''Cannot read properties of null or undefined'')
      else Inr (JObj [(''name'', property col ''name''),
                      (''dataType'', property col ''dataType''),
                      (''isHidden'', js_or (property col ''isHidden'') (JBool False))]))"

definition tableOfREST :: "jsval \<Rightarrow> js_error + jsval" where
  "tableOfREST table =
     (if nullish table then Inl (TypeError ''Cannot read properties of null or undefined'')
      else
        (let columns = property table ''columns'' in
         andThen (if nullish columns then Inr JUndefined else js_map columns columnOfREST) (\<lambda>cols.
           Inr (JObj [(''name'', property table ''name''),
                      (''type'', JStr ''TABLE''),
                      (''description'', js_or (property table ''description'') (JStr [])),
                      (''columnCount'', js_or (optget columns ''length'') (JNum 0)),
                      (''columns'', js_or cols (JArr []))]))))"

definition measureOfREST :: "jsval \<Rightarrow> js_error + jsval" where
  "measureOfREST m =
     (if nullish m then Inl (TypeError ''Cannot read properties of null or undefined'')
      else Inr (JObj [(''name'', property m ''name''),
                      (''tableName'', js_or (property m ''tableName'') (JStr [])),
                      (''expression'', js_or (property m ''expression'') (JStr [])),
                      (''description'', js_or (property m ''description'') (JStr [])),
                      (''dataType'', JStr ''Variant'')]))"

text \<open>
  The two REST extractors share their shape: the response's \<open>value\<close>, when truthy, is
  mapped; every throw inside is caught and gives the empty array, unless the value caught
  is \<open>undefined\<close>, where the \<open>catch\<close> clause throws itself.
\<close>

definition viaREST :: "(jsval \<Rightarrow> js_error + jsval) \<Rightarrow> thrown + jsval \<Rightarrow> thrown + jsval" where
  "viaREST f rest =
     (case rest of
        Inl t \<Rightarrow> (case message_read t of Some e \<Rightarrow> Inl (Thrown e) | None \<Rightarrow> Inr (JArr []))
      | Inr response \<Rightarrow>
          if truthy (optget response ''value'') then
            (case js_map (property response ''value'') f of
               Inl e \<Rightarrow> Inr (JArr [])
             | Inr v \<Rightarrow> Inr v)
          else Inr (JArr []))"

definition extractTablesViaREST :: "thrown + jsval \<Rightarrow> thrown + jsval" where
  "extractTablesViaREST rest = viaREST tableOfREST rest"

definition extractMeasuresViaREST :: "thrown + jsval \<Rightarrow> thrown + jsval" where
  "extractMeasuresViaREST rest = viaREST measureOfREST rest"

text \<open>The \<open>catch\<close> clause of an extractor: the empty array, after the log line.\<close>

definition caught :: "thrown \<Rightarrow> thrown + jsval" where
  "caught t = (case message_read t of Some e \<Rightarrow> Inl (Thrown e) | None \<Rightarrow> Inr (JArr []))"

text \<open>
  \<open>extractTables\<close> and \<open>extractMeasures\<close>: the primary query, and the REST request when
  the test on its result is falsy. \<open>dax\<close> is what \<open>executeDAXQuery\<close> came to, \<open>rest\<close> what
  \<open>makeRequest\<close> comes to if it is called.
\<close>

definition extractTables ::
  "thrown + jsval \<Rightarrow> thrown + jsval \<Rightarrow> string \<Rightarrow> string \<Rightarrow> (thrown + jsval) \<times> string list" where
  "extractTables dax rest wid did =
     (case dax of
        Inl t \<Rightarrow> (caught t, [])
      | Inr result \<Rightarrow>
          (case primaryRows result of
             Inl e \<Rightarrow> (caught (Thrown e), [])
           | Inr (Some rows) \<Rightarrow>
               (case js_map rows tableOfRow of
                  Inl e \<Rightarrow> (caught (Thrown e), [])
                | Inr v \<Rightarrow> (Inr v, []))
           | Inr None \<Rightarrow>
               (case extractTablesViaREST rest of
                  Inl t \<Rightarrow> (caught t, [''/groups/'' @ wid @ ''/datasets/'' @ did @ ''/tables''])
                | Inr v \<Rightarrow> (Inr v, [''/groups/'' @ wid @ ''/datasets/'' @ did @ ''/tables'']))))"

definition extractMeasures ::
  "thrown + jsval \<Rightarrow> thrown + jsval \<Rightarrow> string \<Rightarrow> string \<Rightarrow> (thrown + jsval) \<times> string list" where
  "extractMeasures dax rest wid did =
     (case dax of
        Inl t \<Rightarrow> (caught t, [])
      | Inr result \<Rightarrow>
          (case primaryRows result of
             Inl e \<Rightarrow> (caught (Thrown e), [])
           | Inr (Some rows) \<Rightarrow>
               (case js_map rows measureOfRow of
                  Inl e \<Rightarrow> (caught (Thrown e), [])
                | Inr v \<Rightarrow> (Inr v, []))
           | Inr None \<Rightarrow>
               (case extractMeasuresViaREST rest of
                  Inl t \<Rightarrow> (caught t, [''/groups/'' @ wid @ ''/datasets/'' @ did @ ''/measures''])
                | Inr v \<Rightarrow> (Inr v, [''/groups/'' @ wid @ ''/datasets/'' @ did @ ''/measures'']))))"

text \<open>
  \<open>extractColumns\<close> and \<open>extractRelationships\<close>: the primary query only; a falsy test
  returns the empty array at once. They take the same arguments as the two above, and
  make no use of \<open>rest\<close>.
\<close>

definition extractColumns ::
  "thrown + jsval \<Rightarrow> thrown + jsval \<Rightarrow> string \<Rightarrow> string \<Rightarrow> (thrown + jsval) \<times> string list" where
  "extractColumns dax rest wid did =
     (case dax of
        Inl t \<Rightarrow> (caught t, [])
      | Inr result \<Rightarrow>
          (case primaryRows result of
             Inl e \<Rightarrow> (caught (Thrown e), [])
           | Inr (Some rows) \<Rightarrow>
               (case js_map rows columnOfRow of
                  Inl e \<Rightarrow> (caught (Thrown e), [])
                | Inr v \<Rightarrow> (Inr v, []))
           | Inr None \<Rightarrow> (Inr (JArr []), [])))"

definition extractRelationships ::
  "thrown + jsval \<Rightarrow> thrown + jsval \<Rightarrow> string \<Rightarrow> string \<Rightarrow> (thrown + jsval) \<times> string list" where
  "extractRelationships dax rest wid did =
     (case dax of
        Inl t \<Rightarrow> (caught t, [])
      | Inr result \<Rightarrow>
          (case primaryRows result of
             Inl e \<Rightarrow> (caught (Thrown e), [])
           | Inr (Some rows) \<Rightarrow>
               (case js_map rows relationshipOfRow of
                  Inl e \<Rightarrow> (caught (Thrown e), [])
                | Inr v \<Rightarrow> (Inr v, []))
           | Inr None \<Rightarrow> (Inr (JArr []), [])))"

text \<open>The row of the \<open>datasets\<close> table that \<open>findByPowerBIId\<close> finds.\<close>

record dataset =
  dataset_id :: string
  powerbi_dataset_id :: string
  dataset_name :: string
  powerbi_workspace_id :: string

text \<open>What the two awaits of one category come to.\<close>

record category =
  primary :: "thrown + jsval"
  secondary :: "thrown + jsval"

text \<open>
  The outside of one call of \<open>extractCompleteMetadata\<close>: the dataset lookup (\<open>None\<close> for
  \<open>null\<close>), the four categories, the database write of \<open>storeMetadata\<close> (\<open>Some\<close> what it
  rejects with), and the clock at the start, at \<open>extractedAt\<close> and at \<open>extractionTimeMs\<close>.
\<close>

record outside =
  found :: "thrown + dataset option"
  of_tables :: category
  of_measures :: category
  of_relationships :: category
  of_columns :: category
  stored :: "thrown option"
  startTime :: int
  extractedAt_time :: int
  endTime :: int

record extraction_methods =
  tables_flag :: bool
  measures_flag :: bool
  relationships_flag :: bool
  columns_flag :: bool

record metadata =
  datasetId :: string
  datasetName :: string
  md_workspaceId :: string
  tables :: jsval
  measures :: jsval
  relationships :: jsval
  columns :: jsval
  extractedAt :: int
  extractionTimeMs :: int
  extractionMethods :: extraction_methods

text \<open>One entry of the result of \<open>Promise.allSettled\<close>.\<close>

datatype settled = Fulfilled jsval | Rejected thrown

definition settle :: "thrown + jsval \<Rightarrow> settled" where
  "settle r = (case r of Inl t \<Rightarrow> Rejected t | Inr v \<Rightarrow> Fulfilled v)"

definition fulfilled :: "settled \<Rightarrow> bool" where
  "fulfilled s = (case s of Fulfilled v \<Rightarrow> True | Rejected t \<Rightarrow> False)"

definition value_or_empty :: "settled \<Rightarrow> jsval" where
  "value_or_empty s = (case s of Fulfilled v \<Rightarrow> v | Rejected t \<Rightarrow> JArr [])"

text \<open>The outer \<open>catch\<close> clauses log \<open>error.message\<close> and throw the error again.\<close>

definition rethrown :: "thrown \<Rightarrow> thrown" where
  "rethrown t = (case message_read t of Some e \<Rightarrow> Thrown e | None \<Rightarrow> t)"

definition storeMetadata :: "thrown option \<Rightarrow> thrown option" where
  "storeMetadata written = (case written of None \<Rightarrow> None | Some t \<Rightarrow> Some (rethrown t))"

definition extractCompleteMetadata ::
  "outside \<Rightarrow> string \<Rightarrow> string \<Rightarrow> (thrown + metadata) \<times> string list" where
  "extractCompleteMetadata out wid did =
     (case found out of
        Inl t \<Rightarrow> (Inl (rethrown t), [])
      | Inr None \<Rightarrow> (Inl (Thrown (Error ''Dataset not found in database'')), [])
      | Inr (Some dataset) \<Rightarrow>
          (let (t, treq) = extractTables (primary (of_tables out)) (secondary (of_tables out)) wid did;
               (m, mreq) = extractMeasures (primary (of_measures out)) (secondary (of_measures out)) wid did;
               (r, rreq) = extractRelationships (primary (of_relationships out))
                              (secondary (of_relationships out)) wid did;
               (c, creq) = extractColumns (primary (of_columns out)) (secondary (of_columns out)) wid did;
               md = \<lparr>datasetId = powerbi_dataset_id dataset,
                     datasetName = dataset_name dataset,
                     md_workspaceId = powerbi_workspace_id dataset,
                     tables = value_or_empty (settle t),
                     measures = value_or_empty (settle m),
                     relationships = value_or_empty (settle r),
                     columns = value_or_empty (settle c),
                     extractedAt = extractedAt_time out,
                     extractionTimeMs = endTime out - startTime out,
                     extractionMethods =
                       \<lparr>tables_flag = fulfilled (settle t),
                        measures_flag = fulfilled (settle m),
                        relationships_flag = fulfilled (settle r),
                        columns_flag = fulfilled (settle c)\<rparr>\<rparr>
           in case storeMetadata (stored out) of
                Some e \<Rightarrow> (Inl (rethrown e), treq @ mreq @ rreq @ creq)
              | None \<Rightarrow> (Inr md, treq @ mreq @ rreq @ creq)))"

section \<open>Properties of the connection pool\<close>

lemmas pool_defs =
  getConnection_def lookupConnection_def createConnection_def addConnection_def
  newPool_def Map_has_def Map_size_def getConnectionKey_def findOldestConnection_def

subsection \<open>The validity predicate\<close>

text \<open>
  Claim C6, as stated, has strict inequalities at both time bounds. At the boundary
  \<open>now = tokenExpiry - tokenExpiryBuffer\<close> (here 700000 = 1000000 - 300000) the code
  answers true, where the strict bound of the claim is false.
\<close>

theorem isConnectionValid_strict_counterexample:
  "isConnectionValid (config (newPool 10)) 700000
     \<lparr>workspaceId = ''w'', tenantId = ''t'', userId = ''u'', accessToken = ''secret'',
      tokenExpiry = Some 1000000, endpoint = buildXMLAEndpoint ''w'',
      connectionString = buildConnectionString ''w'' ''secret'',
      createdAt = 0, lastUsed = 0, usageCount = 0, isValid = True\<rparr>
   \<and> \<not> ((700000::int) < 1000000 - tokenExpiryBuffer (config (newPool 10)))"
  by (simp add: isConnectionValid_def newPool_def)

text \<open>
  Claim C6, amended: \<open>isConnectionValid\<close> is true exactly when
  \<open>now \<le> tokenExpiry - tokenExpiryBuffer\<close> and \<open>now - createdAt \<le> maxConnectionAge\<close> and
  \<open>isValid\<close> is true. Both time bounds are inclusive. A \<open>tokenExpiry\<close> that is an invalid
  date passes the first test.
\<close>

theorem isConnectionValid_iff:
  "isConnectionValid cfg now c \<longleftrightarrow>
     (case tokenExpiry c of None \<Rightarrow> True | Some e \<Rightarrow> now \<le> e - tokenExpiryBuffer cfg)
     \<and> now - createdAt c \<le> maxConnectionAge cfg \<and> isValid c"
  by (auto simp: isConnectionValid_def split: option.splits)

subsection \<open>What \<open>getConnection\<close> returns\<close>

text \<open>
  Claim C4, as stated, covers the freshly created connection too. \<open>getConnection\<close> does not
  run the validity predicate on a connection it has just created: with a token that the
  provider hands out one minute before its expiry, inside the buffer of five minutes, the
  connection returned fails the predicate at the reading of the clock.
\<close>

theorem getConnection_fresh_counterexample:
  "case getConnection
          \<lparr>at_check = 1000, at_reuse = 1000, at_created = 1000, at_lastUsed = 1000, at_oldest = 1000\<rparr>
          (Some \<lparr>access_token = ''secret'', expires_at = Some 61000\<rparr>) ''u'' ''t'' ''w'' (newPool 10) of
     (Inr c, p) \<Rightarrow> \<not> isConnectionValid (config p) 1000 c
   | (Inl e, p) \<Rightarrow> False"
  by (simp add: pool_defs isConnectionValid_def)

text \<open>
  Claim C4, amended: every connection returned by \<open>getConnection\<close> has its \<open>isValid\<close> flag
  true; a reused one satisfies the validity predicate \<open>isConnectionValid\<close> at the clock
  reading of the lookup; a freshly created one carries the token provider's expiry as it
  came, unchecked, with \<open>createdAt\<close> the reading of the clock and a usage count of 0.
\<close>

theorem getConnection_returns:
  assumes "getConnection clk tokenData uid tid wid p = (Inr c, p')"
  shows "isValid c \<and>
         (isConnectionValid (config p) (at_check clk) c
          \<or> (\<exists>td. tokenData = Some td \<and> tokenExpiry c = expires_at td
                  \<and> createdAt c = at_created clk \<and> usageCount c = 0))"
  using assms
  by (auto simp: getConnection_def lookupConnection_def createConnection_def Let_def
      isConnectionValid_def
      split: if_splits option.splits sum.splits prod.splits)

text \<open>
  A run of the theorem above (claim C4): a pooled connection created at 1000 is
  reused at 2000, while the token provider has nothing to give.
\<close>

theorem getConnection_returns_witness:
  "(let clk = \<lparr>at_check = 2000, at_reuse = 2001, at_created = 2002, at_lastUsed = 2003, at_oldest = 2004\<rparr>;
        c0 = \<lparr>workspaceId = ''w'', tenantId = ''t'', userId = ''u'', accessToken = ''secret'',
              tokenExpiry = Some 3600000, endpoint = buildXMLAEndpoint ''w'',
              connectionString = buildConnectionString ''w'' ''secret'',
              createdAt = 1000, lastUsed = 1000, usageCount = 0, isValid = True\<rparr>;
        p = (newPool 10)\<lparr>connectionPool := [(''t:w:u'', c0)]\<rparr>;
        c = c0\<lparr>lastUsed := 2001, usageCount := 1\<rparr>;
        p' = p\<lparr>connectionPool := [(''t:w:u'', c)], stats := (stats p)\<lparr>reuseCount := 1\<rparr>\<rparr>
    in getConnection clk None ''u'' ''t'' ''w'' p = (Inr c, p')
       \<and> isValid c \<and> isConnectionValid (config p) (at_check clk) c)"
proof -
  let ?clk = "\<lparr>at_check = 2000, at_reuse = 2001, at_created = 2002, at_lastUsed = 2003, at_oldest = 2004\<rparr>"
  let ?c0 = "\<lparr>workspaceId = ''w'', tenantId = ''t'', userId = ''u'', accessToken = ''secret'',
              tokenExpiry = Some 3600000, endpoint = buildXMLAEndpoint ''w'',
              connectionString = buildConnectionString ''w'' ''secret'',
              createdAt = 1000, lastUsed = 1000, usageCount = 0, isValid = True\<rparr>"
  let ?p = "(newPool 10)\<lparr>connectionPool := [(''t:w:u'', ?c0)]\<rparr>"
  let ?c = "?c0\<lparr>lastUsed := 2001, usageCount := 1\<rparr>"
  let ?p' = "?p\<lparr>connectionPool := [(''t:w:u'', ?c)], stats := (stats ?p)\<lparr>reuseCount := 1\<rparr>\<rparr>"
  have h: "getConnection ?clk None ''u'' ''t'' ''w'' ?p = (Inr ?c, ?p')"
    by (simp add: getConnection_def lookupConnection_def newPool_def Map_has_def Map_get_def
        getConnectionKey_def isConnectionValid_def Let_def)
  from getConnection_returns [OF h] h show ?thesis
    by (simp add: Let_def)
qed

subsection \<open>The size of the pool\<close>

text \<open>
  Claim C3 on the code. \<open>findOldestConnection\<close> starts \<open>oldestTime\<close> at the clock's reading
  and takes a key only when its \<open>lastUsed\<close> is strictly smaller, so it finds no key when
  every pooled connection was last used at that very reading; \<open>getConnection\<close> then adds the
  new connection without removing one. With \<open>maxPoolSize = 1\<close>, two calls for two users
  within one millisecond leave two entries in the pool.
\<close>

theorem pool_exceeds_maxPoolSize:
  "(let clk = \<lparr>at_check = 1000, at_reuse = 1000, at_created = 1000, at_lastUsed = 1000, at_oldest = 1000\<rparr>;
        tok = Some \<lparr>access_token = ''secret'', expires_at = Some 3600000\<rparr>;
        p1 = snd (getConnection clk tok ''u1'' ''t'' ''w'' (newPool 1));
        p2 = snd (getConnection clk tok ''u2'' ''t'' ''w'' p1)
    in Map_size (connectionPool p1) = 1 \<and> Map_size (connectionPool p2) = 2
       \<and> maxPoolSize (config p2) = 1)"
  by (simp add: pool_defs)

text \<open>
  Where the bound does hold: a pool within a positive capacity stays within it across a
  call of \<open>getConnection\<close> whose clock reading in \<open>findOldestConnection\<close> is later than every
  pooled \<open>lastUsed\<close>.
\<close>

lemma length_Map_set: "length (Map_set m k v) \<le> length m + 1"
  by (induction m) auto

lemma length_Map_set_has: "Map_has m k \<Longrightarrow> length (Map_set m k v) = length m"
  by (induction m) (auto simp: Map_has_def)

lemma length_Map_delete: "length (Map_delete m k) \<le> length m"
  by (simp add: Map_delete_def)

lemma length_Map_delete_has: "k \<in> fst ` set m \<Longrightarrow> length (Map_delete m k) < length m"
  unfolding Map_delete_def
  by (induction m) (force simp: less_Suc_eq_le)+

lemma oldest_scan_key:
  "fst (oldest_scan es (ok, ot)) = ok
   \<or> (\<exists>k \<in> fst ` set es. fst (oldest_scan es (ok, ot)) = Some k)"
  by (induction es arbitrary: ok ot) fastforce+

lemma oldest_scan_finds:
  "\<exists>e \<in> set es. lastUsed (snd e) < ot \<Longrightarrow>
     \<exists>k \<in> fst ` set es. fst (oldest_scan es (ok, ot)) = Some k"
proof (induction es arbitrary: ok ot)
  case Nil
  then show ?case by simp
next
  case (Cons e es)
  obtain key c where e: "e = (key, c)" by (cases e)
  show ?case
  proof (cases "lastUsed c < ot")
    case True
    with oldest_scan_key [of es "Some key" "lastUsed c"] e show ?thesis by auto
  next
    case False
    with Cons.prems e have "\<exists>e \<in> set es. lastUsed (snd e) < ot" by auto
    from Cons.IH [OF this, of ok] False e show ?thesis by auto
  qed
qed

lemma findOldestConnection_finds:
  assumes "m \<noteq> []" "\<forall>e \<in> set m. lastUsed (snd e) < now"
  shows "\<exists>k \<in> fst ` set m. findOldestConnection m now = Some k"
proof -
  from assms have "\<exists>e \<in> set m. lastUsed (snd e) < now" by (cases m) auto
  from oldest_scan_finds [OF this] show ?thesis by (simp add: findOldestConnection_def)
qed

lemma addConnection_within_capacity:
  assumes "Map_size (connectionPool p) \<le> maxPoolSize (config p)"
    and "0 < maxPoolSize (config p)"
    and "\<forall>e \<in> set (connectionPool p). fst e \<noteq> [] \<and> lastUsed (snd e) < at_oldest clk"
  shows "Map_size (connectionPool (addConnection clk key c p)) \<le> maxPoolSize (config p)"
proof (cases "Map_size (connectionPool p) < maxPoolSize (config p)")
  case True
  with length_Map_set [of "connectionPool p" key c] show ?thesis
    by (simp add: addConnection_def Map_size_def Let_def)
next
  case False
  with assms have ne: "connectionPool p \<noteq> []" by (auto simp: Map_size_def)
  from assms(3) have "\<forall>e \<in> set (connectionPool p). lastUsed (snd e) < at_oldest clk" by blast
  from findOldestConnection_finds [OF ne this]
  obtain k where k: "k \<in> fst ` set (connectionPool p)"
    "findOldestConnection (connectionPool p) (at_oldest clk) = Some k" by blast
  from k(1) assms(3) have "k \<noteq> []" by auto
  moreover from length_Map_delete_has [OF k(1)]
  have "length (Map_delete (connectionPool p) k) < length (connectionPool p)" .
  moreover have "length (Map_set (Map_delete (connectionPool p) k) key c)
      \<le> length (Map_delete (connectionPool p) k) + 1" by (rule length_Map_set)
  ultimately show ?thesis using False k(2) assms(1)
    by (simp add: addConnection_def Map_size_def Let_def)
qed

lemma lookupConnection_size:
  "Map_size (connectionPool (snd (lookupConnection clk key p))) \<le> Map_size (connectionPool p)"
  by (auto simp: lookupConnection_def Map_size_def Let_def length_Map_set_has length_Map_delete
      split: option.splits)

lemma lookupConnection_config: "config (snd (lookupConnection clk key p)) = config p"
  by (auto simp: lookupConnection_def Let_def split: option.splits)

lemma lookupConnection_entries:
  "lookupConnection clk key p = (None, p1) \<Longrightarrow> set (connectionPool p1) \<subseteq> set (connectionPool p)"
  by (auto simp: lookupConnection_def Let_def Map_delete_def split: option.splits if_splits)

lemma getConnection_within_capacity:
  assumes "Map_size (connectionPool p) \<le> maxPoolSize (config p)"
    and "0 < maxPoolSize (config p)"
    and "\<forall>e \<in> set (connectionPool p). fst e \<noteq> [] \<and> lastUsed (snd e) < at_oldest clk"
  shows "Map_size (connectionPool (snd (getConnection clk tokenData uid tid wid p)))
           \<le> maxPoolSize (config p)"
proof -
  let ?key = "getConnectionKey tid wid uid"
  obtain r p1 where l: "lookupConnection clk ?key p = (r, p1)"
    by (cases "lookupConnection clk ?key p")
  from lookupConnection_size [of clk ?key p] l assms(1)
  have s1: "Map_size (connectionPool p1) \<le> maxPoolSize (config p)" by simp
  from lookupConnection_config [of clk ?key p] l have c1: "config p1 = config p" by simp
  show ?thesis
  proof (cases r)
    case (Some c)
    with l s1 show ?thesis by (simp add: getConnection_def)
  next
    case None
    with l lookupConnection_entries
    have sub: "set (connectionPool p1) \<subseteq> set (connectionPool p)" by blast
    show ?thesis
    proof (cases "createConnection clk tokenData uid tid wid")
      case (Inl e)
      with None l s1 show ?thesis by (simp add: getConnection_def)
    next
      case (Inr c)
      from sub assms(3)
      have "\<forall>e \<in> set (connectionPool p1). fst e \<noteq> [] \<and> lastUsed (snd e) < at_oldest clk"
        by blast
      from addConnection_within_capacity [of p1 clk ?key c] s1 c1 assms(2) this
      have "Map_size (connectionPool (addConnection clk ?key c p1)) \<le> maxPoolSize (config p)"
        by simp
      with None l Inr show ?thesis by (simp add: getConnection_def)
    qed
  qed
qed

section \<open>Properties of the query executor\<close>

lemmas executor_defs =
  executeDAXQuery_def beginDAXQuery_def completeDAXQuery_def executeWithRetry_def retryLoop.simps newExecutor_def queryFailed_def
  executeSingleQuery_def isRetryableError_def shouldInvalidateConnection_def status_of_def
  errorMessage_def toLowerCase_def toLowerCase_char_def Error_def ReferenceError_def
  calculateBackoffDelay_def backoffBase_def attempts_def invalidations_def

subsection \<open>What the retry loop leaves alone\<close>

text \<open>
  Any reading \<open>f\<close> of the executor that the loop's four kinds of update do not change is
  the same after the loop as before it.
\<close>

lemma retryLoop_preserves:
  assumes att: "\<And>y n. f (y\<lparr>events := events y @ [Attempt n]\<rparr>) = f y"
      and sle: "\<And>y d. f (y\<lparr>events := events y @ [Sleep d]\<rparr>) = f y"
      and rq: "\<And>y. f (y\<lparr>queryStats := (queryStats y)\<lparr>retriedQueries := retriedQueries (queryStats y) + 1\<rparr>\<rparr>) = f y"
      and inv: "\<And>y tid. global_tenantId env = Some tid \<Longrightarrow>
                 f (y\<lparr>poolService := invalidateConnection uid tid wid (poolService y),
                      events := events y @ [Invalidate uid tid wid]\<rparr>) = f y"
  shows "f (snd (retryLoop env uid wid attempt lastError x)) = f x"
  using inv
proof (induction env uid wid attempt lastError x rule: retryLoop.induct)
  case (1 env uid wid attempt lastError x)
  show ?case
  proof (cases "int attempt < maxRetries (retryConfig x)")
    case False
    then show ?thesis by (subst retryLoop.simps) simp
  next
    case True
    let ?x1 = "x\<lparr>events := events x @ [Attempt (attempt + 1)]\<rparr>"
    have f1: "f ?x1 = f x" by (rule att)
    show ?thesis
    proof (cases "executeSingleQuery (retryConfig x) (remote env (attempt + 1))")
      case (Inr result)
      let ?x1' = "?x1\<lparr>queryStats := (queryStats ?x1)\<lparr>retriedQueries := retriedQueries (queryStats ?x1) + 1\<rparr>\<rparr>"
      have f1': "f ?x1' = f ?x1" by (rule rq)
      from True Inr
      have "snd (retryLoop env uid wid attempt lastError x) = (if attempt + 1 > 1 then ?x1' else ?x1)"
        by (subst retryLoop.simps) (simp add: Let_def)
      then have "f (snd (retryLoop env uid wid attempt lastError x))
          = f (if attempt + 1 > 1 then ?x1' else ?x1)" by (simp only:)
      also have "\<dots> = f x"
        by (cases "attempt + 1 > 1") (simp_all only: if_True if_False f1 f1')
      finally show ?thesis .
    next
      case (Inl error)
      let ?x2 = "?x1\<lparr>events := events ?x1 @ [Sleep (calculateBackoffDelay (retryConfig x) (attempt + 1) (random env (attempt + 1)))]\<rparr>"
      have f2: "f ?x2 = f ?x1" by (rule sle)
      show ?thesis
      proof (cases "isRetryableError error \<and> \<not> int (attempt + 1) \<ge> maxRetries (retryConfig x)")
        case False
        with True Inl have "snd (retryLoop env uid wid attempt lastError x) = ?x1"
          by (subst retryLoop.simps) (auto simp add: Let_def)
        with f1 show ?thesis by simp
      next
        case go: True
        show ?thesis
        proof (cases "shouldInvalidateConnection error")
          case False
          from "1.IH"(2) [OF True refl refl Inl _ _ refl refl False "1.prems"] go
          have "f (snd (retryLoop env uid wid (attempt + 1) (Some error) ?x2)) = f ?x2" by simp
          moreover from True Inl go False
          have "retryLoop env uid wid attempt lastError x = retryLoop env uid wid (attempt + 1) (Some error) ?x2"
            by (subst retryLoop.simps) (simp add: Let_def)
          ultimately show ?thesis using f1 f2 by simp
        next
          case inval: True
          show ?thesis
          proof (cases "global_tenantId env")
            case None
            with True Inl go inval have "snd (retryLoop env uid wid attempt lastError x) = ?x2"
              by (subst retryLoop.simps) (simp add: Let_def)
            with f1 f2 show ?thesis by simp
          next
            case (Some tid)
            let ?x3 = "?x2\<lparr>poolService := invalidateConnection uid tid wid (poolService ?x2),
                           events := events ?x2 @ [Invalidate uid tid wid]\<rparr>"
            have f3: "f ?x3 = f ?x2" by (rule "1.prems" [OF Some])
            from "1.IH"(1) [OF True refl refl Inl _ _ refl refl inval Some "1.prems"] go
            have "f (snd (retryLoop env uid wid (attempt + 1) (Some error) ?x3)) = f ?x3" by simp
            moreover from True Inl go inval Some
            have "retryLoop env uid wid attempt lastError x = retryLoop env uid wid (attempt + 1) (Some error) ?x3"
              by (subst retryLoop.simps) (simp add: Let_def)
            ultimately show ?thesis using f1 f2 f3 by simp
          qed
        qed
      qed
    qed
  qed
qed

lemma retryLoop_totalQueries:
  "totalQueries (queryStats (snd (retryLoop env uid wid attempt lastError x))) = totalQueries (queryStats x)"
  by (rule retryLoop_preserves) simp_all

lemma retryLoop_successfulQueries:
  "successfulQueries (queryStats (snd (retryLoop env uid wid attempt lastError x))) = successfulQueries (queryStats x)"
  by (rule retryLoop_preserves) simp_all

lemma retryLoop_failedQueries:
  "failedQueries (queryStats (snd (retryLoop env uid wid attempt lastError x))) = failedQueries (queryStats x)"
  by (rule retryLoop_preserves) simp_all

lemma retryLoop_retryConfig:
  "retryConfig (snd (retryLoop env uid wid attempt lastError x)) = retryConfig x"
  by (rule retryLoop_preserves) simp_all

lemma retryLoop_no_invalidate:
  assumes "global_tenantId env = None"
  shows "invalidations (events (snd (retryLoop env uid wid attempt lastError x))) = invalidations (events x)"
  using assms by (intro retryLoop_preserves) (simp_all add: invalidations_def)

lemma retryLoop_pool_untouched:
  assumes "global_tenantId env = None"
  shows "poolService (snd (retryLoop env uid wid attempt lastError x)) = poolService x"
  using assms by (intro retryLoop_preserves) simp_all


subsection \<open>The counters\<close>

lemma queryFailed_counters:
  "queryStats (snd (queryFailed q t thr x))
     = (queryStats x)\<lparr>failedQueries := failedQueries (queryStats x) + 1\<rparr>"
  by (simp add: queryFailed_def Let_def split: thrown.splits)

lemma completeDAXQuery_counters:
  "(let x' = snd (completeDAXQuery conv env clk tokenData t0 t1 uid tid wid did daxQuery x) in
      totalQueries (queryStats x') = totalQueries (queryStats x)
    \<and> (  successfulQueries (queryStats x') = successfulQueries (queryStats x) + 1
         \<and> failedQueries (queryStats x') = failedQueries (queryStats x)
       \<or> successfulQueries (queryStats x') = successfulQueries (queryStats x)
         \<and> failedQueries (queryStats x') = failedQueries (queryStats x) + 1))"
proof -
  obtain g p1 where g: "getConnection clk tokenData uid tid wid (poolService x) = (g, p1)"
    by (cases "getConnection clk tokenData uid tid wid (poolService x)")
  let ?xp = "x\<lparr>poolService := p1\<rparr>"
  let ?r = "retryLoop env uid wid 0 None ?xp"
  have c: "totalQueries (queryStats (snd ?r)) = totalQueries (queryStats x)"
      "successfulQueries (queryStats (snd ?r)) = successfulQueries (queryStats x)"
      "failedQueries (queryStats (snd ?r)) = failedQueries (queryStats x)"
    by (simp_all add: retryLoop_totalQueries retryLoop_successfulQueries retryLoop_failedQueries)
  obtain r x1 where r: "?r = (r, x1)" by (cases ?r)
  with c have c1: "totalQueries (queryStats x1) = totalQueries (queryStats x)"
      "successfulQueries (queryStats x1) = successfulQueries (queryStats x)"
      "failedQueries (queryStats x1) = failedQueries (queryStats x)"
    by simp_all
  show ?thesis
  proof (cases g)
    case (Inl e)
    with g show ?thesis
      by (simp add: completeDAXQuery_def Let_def queryFailed_counters)
  next
    case (Inr connection)
    show ?thesis
    proof (cases r)
      case (Inl t)
      with g Inr r c1 show ?thesis
        by (simp add: completeDAXQuery_def executeWithRetry_def Let_def queryFailed_counters)
    next
      case res: (Inr result)
      with g Inr r c1 show ?thesis
        by (simp add: completeDAXQuery_def executeWithRetry_def Let_def)
    qed
  qed
qed

text \<open>
  Claim C9, as stated, has the equation after every completed call. A call counts itself
  in \<open>totalQueries\<close> when it starts and in one of the two other counters only when it
  ends. With two calls started, as by \<open>executeBatchQueries\<close> on two queries, the equation
  fails after the first of them has completed: \<open>totalQueries\<close> is 2, and the two others
  add up to 1.
\<close>

theorem counters_while_in_flight_counterexample:
  "(let x0 = newExecutor 3 30000 (newPool 10);
        x1 = beginDAXQuery (beginDAXQuery x0);
        x2 = snd (completeDAXQuery (\<lambda>v. None)
                \<lparr>remote = (\<lambda>n. Responded (JObj [])), random = (\<lambda>n. 0), global_tenantId = None\<rparr>
                \<lparr>at_check = 1000, at_reuse = 1000, at_created = 1000, at_lastUsed = 1000, at_oldest = 1000\<rparr>
                (Some \<lparr>access_token = ''secret'', expires_at = Some 3600000\<rparr>) 1000 1250
                ''u'' ''t'' ''w'' ''d'' ''EVALUATE T'' x1)
    in counters_add_up x0
       \<and> totalQueries (queryStats x2) = 2
       \<and> successfulQueries (queryStats x2) = 1
       \<and> failedQueries (queryStats x2) = 0
       \<and> \<not> counters_add_up x2)"
  by (simp add: executor_defs pool_defs counters_add_up_def)

text \<open>
  The bookkeeping behind the amended claim: what each step does to the lead of
  \<open>totalQueries\<close>, and what a run of steps does to it.
\<close>

lemma ahead_Begin: "ahead (beginDAXQuery x) = ahead x + 1"
  by (simp add: ahead_def beginDAXQuery_def)

lemma ahead_Complete:
  "ahead (snd (completeDAXQuery conv env clk tokenData t0 t1 uid tid wid did daxQuery x)) = ahead x - 1"
  using completeDAXQuery_counters [of conv env clk tokenData t0 t1 uid tid wid did daxQuery x]
  by (auto simp: Let_def ahead_def)

lemma ahead_Reset: "ahead (resetStats x) = 0"
  by (simp add: ahead_def resetStats_def)

lemma counters_add_up_ahead: "counters_add_up x \<longleftrightarrow> ahead x = 0"
  by (auto simp: counters_add_up_def ahead_def)

lemma ahead_run:
  "orderly k ss \<Longrightarrow> ahead x = int k \<Longrightarrow> ahead (run ss x) = int (in_flight k ss)"
proof (induction ss arbitrary: k x)
  case Nil
  then show ?case by simp
next
  case (Cons s ss)
  show ?case
  proof (cases s)
    case Begin
    with Cons.prems have "orderly (k + 1) ss" "ahead (perform s x) = int (k + 1)"
      by (simp_all add: ahead_Begin)
    from Cons.IH [OF this] Begin show ?thesis by simp
  next
    case (Complete c)
    with Cons.prems have "orderly (k - 1) ss" "ahead (perform s x) = int (k - 1)"
      by (simp_all add: ahead_Complete)
    from Cons.IH [OF this] Complete show ?thesis by simp
  next
    case Reset
    with Cons.prems have "orderly k ss" "ahead (perform s x) = int k"
      by (auto simp: ahead_Reset)
    from Cons.IH [OF this] Reset show ?thesis by simp
  qed
qed

lemma orderly_prefix: "orderly k (ss @ ss') \<Longrightarrow> orderly k ss"
  by (induction k ss rule: orderly.induct) auto

text \<open>
  Claim C9, amended: a call of \<open>executeDAXQuery\<close> adds one to \<open>totalQueries\<close> when it
  starts, and one to exactly one of \<open>successfulQueries\<close> and \<open>failedQueries\<close> when it
  completes (also when it rejects). Along every run of calls, overlapping or not, in
  which \<open>resetStats\<close> is called only while no call is in flight, and at every point of
  it, \<open>totalQueries\<close> equals \<open>successfulQueries + failedQueries\<close> plus the number of
  calls in flight; so the
  equation \<open>totalQueries = successfulQueries + failedQueries\<close> holds exactly at the
  points where no call is in flight, and a call made on its own carries it over.
  \<open>resetStats\<close> sets the counters to zero, where the equation holds.
\<close>

theorem executeDAXQuery_counters:
  "(orderly k (ss @ ss') \<and> ahead x = int k \<longrightarrow>
      ahead (run ss x) = int (in_flight k ss)
      \<and> (counters_add_up (run ss x) \<longleftrightarrow> in_flight k ss = 0))
   \<and> totalQueries (queryStats (perform Begin x)) = totalQueries (queryStats x) + 1
   \<and> successfulQueries (queryStats (perform Begin x)) = successfulQueries (queryStats x)
   \<and> failedQueries (queryStats (perform Begin x)) = failedQueries (queryStats x)
   \<and> totalQueries (queryStats (perform (Complete c) x)) = totalQueries (queryStats x)
   \<and> (  successfulQueries (queryStats (perform (Complete c) x)) = successfulQueries (queryStats x) + 1
         \<and> failedQueries (queryStats (perform (Complete c) x)) = failedQueries (queryStats x)
       \<or> successfulQueries (queryStats (perform (Complete c) x)) = successfulQueries (queryStats x)
         \<and> failedQueries (queryStats (perform (Complete c) x)) = failedQueries (queryStats x) + 1)
   \<and> snd (executeDAXQuery (arg_conv c) (arg_env c) (arg_clock c) (arg_token c) (arg_start c)
            (arg_end c) (arg_userId c) (arg_tenantId c) (arg_workspaceId c) (arg_datasetId c)
            (arg_query c) x) = run [Begin, Complete c] x
   \<and> (counters_add_up x \<longrightarrow> counters_add_up (run [Begin, Complete c] x))
   \<and> totalQueries (queryStats (perform Reset x)) = 0
   \<and> successfulQueries (queryStats (perform Reset x)) = 0
   \<and> failedQueries (queryStats (perform Reset x)) = 0
   \<and> counters_add_up (perform Reset x)"
proof -
  have inv: "orderly k (ss @ ss') \<and> ahead x = int k \<longrightarrow>
      ahead (run ss x) = int (in_flight k ss)
      \<and> (counters_add_up (run ss x) \<longleftrightarrow> in_flight k ss = 0)"
    using ahead_run [of k ss x] orderly_prefix [of k ss ss']
    by (auto simp: counters_add_up_ahead)
  have b: "totalQueries (queryStats (perform Begin x)) = totalQueries (queryStats x) + 1"
    "successfulQueries (queryStats (perform Begin x)) = successfulQueries (queryStats x)"
    "failedQueries (queryStats (perform Begin x)) = failedQueries (queryStats x)"
    by (simp_all add: beginDAXQuery_def)
  have c: "totalQueries (queryStats (perform (Complete c) x)) = totalQueries (queryStats x)
   \<and> (  successfulQueries (queryStats (perform (Complete c) x)) = successfulQueries (queryStats x) + 1
         \<and> failedQueries (queryStats (perform (Complete c) x)) = failedQueries (queryStats x)
       \<or> successfulQueries (queryStats (perform (Complete c) x)) = successfulQueries (queryStats x)
         \<and> failedQueries (queryStats (perform (Complete c) x)) = failedQueries (queryStats x) + 1)"
    using completeDAXQuery_counters [of "arg_conv c" "arg_env c" "arg_clock c" "arg_token c"
      "arg_start c" "arg_end c" "arg_userId c" "arg_tenantId c" "arg_workspaceId c"
      "arg_datasetId c" "arg_query c" x]
    by (simp add: Let_def)
  have e: "snd (executeDAXQuery (arg_conv c) (arg_env c) (arg_clock c) (arg_token c) (arg_start c)
            (arg_end c) (arg_userId c) (arg_tenantId c) (arg_workspaceId c) (arg_datasetId c)
            (arg_query c) x) = run [Begin, Complete c] x"
    by (simp add: executeDAXQuery_def)
  have s: "counters_add_up x \<longrightarrow> counters_add_up (run [Begin, Complete c] x)"
    by (simp add: counters_add_up_ahead ahead_Begin ahead_Complete)
  have r: "totalQueries (queryStats (perform Reset x)) = 0"
    "successfulQueries (queryStats (perform Reset x)) = 0"
    "failedQueries (queryStats (perform Reset x)) = 0"
    "counters_add_up (perform Reset x)"
    by (simp_all add: resetStats_def counters_add_up_def)
  from inv b c e s r show ?thesis by blast
qed

text \<open>
  A run of the theorem above (claim C9), on a fresh executor: two calls overlap and
  complete, the counters are reset, a third call runs on its own. After the first
  completion one call is in flight and the equation fails; no call is in flight at the
  end, and the counters add up.
\<close>

theorem executeDAXQuery_counters_witness:
  "(let c = \<lparr>arg_conv = (\<lambda>v. None),
          arg_env = \<lparr>remote = (\<lambda>n. TimedOut), random = (\<lambda>n. 0), global_tenantId = None\<rparr>,
          arg_clock = \<lparr>at_check = 1000, at_reuse = 1000, at_created = 1000, at_lastUsed = 1000, at_oldest = 1000\<rparr>,
          arg_token = Some \<lparr>access_token = ''secret'', expires_at = Some 3600000\<rparr>,
          arg_start = 1000, arg_end = 1250, arg_userId = ''u'', arg_tenantId = ''t'',
          arg_workspaceId = ''w'', arg_datasetId = ''d'', arg_query = ''EVALUATE T''\<rparr>;
        x = newExecutor 3 30000 (newPool 10);
        ss = [Begin, Begin, Complete c];
        ss' = [Complete c, Reset, Begin, Complete c]
    in orderly 0 (ss @ ss') \<and> ahead x = 0 \<and> counters_add_up x
       \<and> in_flight 0 ss = 1 \<and> ahead (run ss x) = 1 \<and> \<not> counters_add_up (run ss x)
       \<and> in_flight 0 (ss @ ss') = 0 \<and> ahead (run (ss @ ss') x) = 0
       \<and> counters_add_up (run (ss @ ss') x)
       \<and> counters_add_up (run [Begin, Complete c] x))"
proof -
  let ?c = "\<lparr>arg_conv = (\<lambda>v. None),
          arg_env = \<lparr>remote = (\<lambda>n. TimedOut), random = (\<lambda>n. 0), global_tenantId = None\<rparr>,
          arg_clock = \<lparr>at_check = 1000, at_reuse = 1000, at_created = 1000, at_lastUsed = 1000, at_oldest = 1000\<rparr>,
          arg_token = Some \<lparr>access_token = ''secret'', expires_at = Some 3600000\<rparr>,
          arg_start = 1000, arg_end = 1250, arg_userId = ''u'', arg_tenantId = ''t'',
          arg_workspaceId = ''w'', arg_datasetId = ''d'', arg_query = ''EVALUATE T''\<rparr>"
  let ?x = "newExecutor 3 30000 (newPool 10)"
  let ?ss = "[Begin, Begin, Complete ?c]"
  let ?ss' = "[Complete ?c, Reset, Begin, Complete ?c]"
  have h: "orderly 0 (?ss @ ?ss')" "orderly 0 ((?ss @ ?ss') @ [])" "ahead ?x = int 0"
    "in_flight 0 ?ss = 1" "in_flight 0 (?ss @ ?ss') = 0" "counters_add_up ?x"
    by (simp_all add: ahead_def counters_add_up_def newExecutor_def)
  from executeDAXQuery_counters [of 0 ?ss ?ss' ?x ?c] h
  have p: "ahead (run ?ss ?x) = 1" "\<not> counters_add_up (run ?ss ?x)"
    by simp_all
  from executeDAXQuery_counters [of 0 "?ss @ ?ss'" "[]" ?x ?c] h
  have q: "ahead (run (?ss @ ?ss') ?x) = 0" "counters_add_up (run (?ss @ ?ss') ?x)"
    "counters_add_up (run [Begin, Complete ?c] ?x)"
    by simp_all
  from h p q show ?thesis
    by (simp add: Let_def del: run.simps perform.simps append.simps)
qed

text \<open>
  The condition on \<open>resetStats\<close> is needed: called between the start and the end of a
  call, it leaves that call's completion without its start.
\<close>

lemma reset_while_in_flight:
  "(let x = run [Begin, Reset,
                 Complete \<lparr>arg_conv = (\<lambda>v. None),
                   arg_env = \<lparr>remote = (\<lambda>n. Responded (JObj [])), random = (\<lambda>n. 0), global_tenantId = None\<rparr>,
                   arg_clock = \<lparr>at_check = 1000, at_reuse = 1000, at_created = 1000, at_lastUsed = 1000, at_oldest = 1000\<rparr>,
                   arg_token = Some \<lparr>access_token = ''secret'', expires_at = Some 3600000\<rparr>,
                   arg_start = 1000, arg_end = 1250, arg_userId = ''u'', arg_tenantId = ''t'',
                   arg_workspaceId = ''w'', arg_datasetId = ''d'', arg_query = ''EVALUATE T''\<rparr>]
               (newExecutor 3 30000 (newPool 10))
    in totalQueries (queryStats x) = 0 \<and> successfulQueries (queryStats x) = 1)"
  by (simp add: executor_defs pool_defs resetStats_def)

subsection \<open>Invalidation after an authentication failure\<close>

text \<open>
  Claim C1 on the code. The service answers 401. \<open>shouldInvalidateConnection\<close> is true of
  this error, but the error is not retryable, the loop is left before the test is
  reached, and \<open>invalidateConnection\<close> is not called: the only event is the one attempt,
  and the pooled connection keeps \<open>isValid = true\<close>.
\<close>

theorem auth_failure_not_invalidated:
  "(let e401 = \<lparr>has_response = True, response_status = Some 401, status = None,
                 message = Some ''Request failed with status code 401''\<rparr>;
        (r, x) = executeDAXQuery (\<lambda>v. None)
          \<lparr>remote = (\<lambda>n. Failed e401), random = (\<lambda>n. 0), global_tenantId = None\<rparr>
          \<lparr>at_check = 1000, at_reuse = 1000, at_created = 1000, at_lastUsed = 1000, at_oldest = 1000\<rparr>
          (Some \<lparr>access_token = ''secret'', expires_at = Some 3600000\<rparr>) 1000 1250
          ''u'' ''t'' ''w'' ''d'' ''EVALUATE T'' (newExecutor 3 30000 (newPool 10))
    in shouldInvalidateConnection e401
       \<and> events x = [Attempt 1]
       \<and> invalidations (events x) = []
       \<and> map (\<lambda>(k, c). (k, isValid c)) (connectionPool (poolService x)) = [(''t:w:u'', True)])"
  by (simp add: executor_defs pool_defs)

text \<open>
  The same holds of every error that is not retryable, whatever the global scope binds:
  the call ends after its first attempt, with nothing invalidated.
\<close>

lemma executeWithRetry_fatal:
  assumes "0 < maxRetries (retryConfig x)"
    and "executeSingleQuery (retryConfig x) (remote env 1) = Inl e"
    and "\<not> isRetryableError e"
  shows "executeWithRetry env uid wid x = (Inl (Thrown e), x\<lparr>events := events x @ [Attempt 1]\<rparr>)"
  using assms by (simp add: executeWithRetry_def retryLoop.simps)

text \<open>
  And where the identifier \<open>tenantId\<close> is unbound, no run of the loop invalidates
  anything or touches the pool: the one place that would do so throws first.
\<close>

lemma executeWithRetry_never_invalidates:
  assumes "global_tenantId env = None"
  shows "invalidations (events (snd (executeWithRetry env uid wid x))) = invalidations (events x)
         \<and> poolService (snd (executeWithRetry env uid wid x)) = poolService x"
  using assms
  by (simp add: executeWithRetry_def retryLoop_no_invalidate retryLoop_pool_untouched)

subsection \<open>The number of attempts\<close>

text \<open>
  Claim C5 on the code. The remote call rejects with a plain error (no response, so
  retryable) whose message mentions a token. After the first attempt the loop sleeps, then
  evaluates the arguments of \<open>invalidateConnection\<close>; \<open>tenantId\<close> is unbound, and the
  ReferenceError leaves the loop. One attempt is made, not three, and the result carries
  the ReferenceError's message, not the message of the error observed.
\<close>

theorem retry_cut_short:
  "(let e = Error ''Failed to refresh access token'';
        (r, x) = executeDAXQuery (\<lambda>v. None)
          \<lparr>remote = (\<lambda>n. Failed e), random = (\<lambda>n. 0), global_tenantId = None\<rparr>
          \<lparr>at_check = 1000, at_reuse = 1000, at_created = 1000, at_lastUsed = 1000, at_oldest = 1000\<rparr>
          (Some \<lparr>access_token = ''secret'', expires_at = Some 3600000\<rparr>) 1000 1250
          ''u'' ''t'' ''w'' ''d'' ''EVALUATE T'' (newExecutor 3 30000 (newPool 10))
    in isRetryableError e
       \<and> attempts (events x) = 1
       \<and> r = Inr (JObj [(''success'', JBool False), (''query'', JStr ''EVALUATE T''),
                        (''error'', JStr ''tenantId is not defined''),
                        (''executionTimeMs'', JNum 250)]))"
  by (simp add: executor_defs pool_defs)

text \<open>
  The two halves of the claim hold where that line is not reached, or where the
  identifier is bound. A first error that is not retryable ends the call after one
  attempt (\<open>executeWithRetry_fatal\<close> above). When every attempt fails with a retryable
  error, and none of these errors asks for an invalidation while \<open>tenantId\<close> is unbound,
  the loop makes \<open>maxRetries\<close> attempts and throws the error of the last one, which
  \<open>executeDAXQuery\<close> turns into a result with \<open>success: false\<close> and that error's message.
\<close>

lemma attempts_append [simp]: "attempts (es @ es') = attempts es + attempts es'"
  by (simp add: attempts_def)

lemma retryLoop_exhausted:
  assumes "\<And>n. attempt < n \<Longrightarrow> int n \<le> maxRetries (retryConfig x) \<Longrightarrow>
             \<exists>e. executeSingleQuery (retryConfig x) (remote env n) = Inl e \<and> isRetryableError e
                 \<and> (shouldInvalidateConnection e \<longrightarrow> global_tenantId env \<noteq> None)"
    and "int attempt < maxRetries (retryConfig x)"
    and "executeSingleQuery (retryConfig x) (remote env (nat (maxRetries (retryConfig x)))) = Inl e_last"
  shows "fst (retryLoop env uid wid attempt lastError x) = Inl (Thrown e_last)
       \<and> attempts (events (snd (retryLoop env uid wid attempt lastError x)))
           = attempts (events x) + (nat (maxRetries (retryConfig x)) - attempt)"
  using assms
proof (induction env uid wid attempt lastError x rule: retryLoop.induct)
  case (1 env uid wid attempt lastError x)
  let ?cfg = "retryConfig x"
  let ?x1 = "x\<lparr>events := events x @ [Attempt (attempt + 1)]\<rparr>"
  let ?x2 = "?x1\<lparr>events := events ?x1 @ [Sleep (calculateBackoffDelay ?cfg (attempt + 1) (random env (attempt + 1)))]\<rparr>"
  note lt = "1.prems"(2)
  from "1.prems"(1) [of "attempt + 1"] lt
  obtain error where err: "executeSingleQuery ?cfg (remote env (attempt + 1)) = Inl error"
    "isRetryableError error" "shouldInvalidateConnection error \<longrightarrow> global_tenantId env \<noteq> None"
    by auto
  show ?case
  proof (cases "int (attempt + 1) \<ge> maxRetries ?cfg")
    case True
    with lt have last: "nat (maxRetries ?cfg) = attempt + 1" by simp
    with "1.prems"(3) err(1) have "error = e_last" by simp
    moreover from lt err True
    have "retryLoop env uid wid attempt lastError x = (Inl (Thrown error), ?x1)"
      by (subst retryLoop.simps) (simp add: Let_def)
    ultimately show ?thesis using last by (simp add: attempts_def)
  next
    case False
    then have lt': "int (attempt + 1) < maxRetries ?cfg" by simp
    have more: "\<exists>e. executeSingleQuery ?cfg (remote env n) = Inl e \<and> isRetryableError e
                 \<and> (shouldInvalidateConnection e \<longrightarrow> global_tenantId env \<noteq> None)"
      if "attempt + 1 < n" "int n \<le> maxRetries ?cfg" for n
      using "1.prems"(1) [of n] that by simp
    show ?thesis
    proof (cases "shouldInvalidateConnection error")
      case no: False
      have step: "retryLoop env uid wid attempt lastError x = retryLoop env uid wid (attempt + 1) (Some error) ?x2"
        using lt err False no by (subst retryLoop.simps) (simp add: Let_def)
      from "1.IH"(2) [OF lt refl refl err(1) _ _ refl refl no] err(2) False more lt' "1.prems"(3)
      have "fst (retryLoop env uid wid (attempt + 1) (Some error) ?x2) = Inl (Thrown e_last)
       \<and> attempts (events (snd (retryLoop env uid wid (attempt + 1) (Some error) ?x2)))
           = attempts (events ?x2) + (nat (maxRetries (retryConfig ?x2)) - (attempt + 1))"
        by simp
      with lt' show ?thesis unfolding step by (simp add: attempts_def)
    next
      case yes: True
      with err(3) obtain tid where tid: "global_tenantId env = Some tid" by auto
      let ?x3 = "?x2\<lparr>poolService := invalidateConnection uid tid wid (poolService ?x2),
                     events := events ?x2 @ [Invalidate uid tid wid]\<rparr>"
      have step: "retryLoop env uid wid attempt lastError x = retryLoop env uid wid (attempt + 1) (Some error) ?x3"
        using lt err False yes tid by (subst retryLoop.simps) (simp add: Let_def)
      from "1.IH"(1) [OF lt refl refl err(1) _ _ refl refl yes tid] err(2) False more lt' "1.prems"(3)
      have "fst (retryLoop env uid wid (attempt + 1) (Some error) ?x3) = Inl (Thrown e_last)
       \<and> attempts (events (snd (retryLoop env uid wid (attempt + 1) (Some error) ?x3)))
           = attempts (events ?x3) + (nat (maxRetries (retryConfig ?x3)) - (attempt + 1))"
        by simp
      with lt' show ?thesis unfolding step by (simp add: attempts_def)
    qed
  qed
qed

lemma executeWithRetry_exhausted:
  assumes "0 < maxRetries (retryConfig x)"
    and "\<And>n. 0 < n \<Longrightarrow> int n \<le> maxRetries (retryConfig x) \<Longrightarrow>
             \<exists>e. executeSingleQuery (retryConfig x) (remote env n) = Inl e \<and> isRetryableError e
                 \<and> (shouldInvalidateConnection e \<longrightarrow> global_tenantId env \<noteq> None)"
    and "executeSingleQuery (retryConfig x) (remote env (nat (maxRetries (retryConfig x)))) = Inl e_last"
  shows "fst (executeWithRetry env uid wid x) = Inl (Thrown e_last)
       \<and> attempts (events (snd (executeWithRetry env uid wid x)))
           = attempts (events x) + nat (maxRetries (retryConfig x))"
  using retryLoop_exhausted [of 0 x env e_last uid wid None] assms
  by (simp add: executeWithRetry_def)


lemma executeDAXQuery_exhausted:
  assumes "getConnection clk tokenData uid tid wid (poolService x) = (Inr c, p1)"
    and "0 < maxRetries (retryConfig x)"
    and "\<And>n. 0 < n \<Longrightarrow> int n \<le> maxRetries (retryConfig x) \<Longrightarrow>
             \<exists>e. executeSingleQuery (retryConfig x) (remote env n) = Inl e \<and> isRetryableError e
                 \<and> (shouldInvalidateConnection e \<longrightarrow> global_tenantId env \<noteq> None)"
    and "executeSingleQuery (retryConfig x) (remote env (nat (maxRetries (retryConfig x)))) = Inl e_last"
  shows "fst (executeDAXQuery conv env clk tokenData t0 t1 uid tid wid did daxQuery x)
         = Inr (JObj [(''success'', JBool False), (''query'', JStr daxQuery),
                      (''error'', (case message e_last of None \<Rightarrow> JUndefined | Some m \<Rightarrow> JStr m)),
                      (''executionTimeMs'', JNum (t1 - t0))])"
proof -
  let ?x0 = "x\<lparr>queryStats := (queryStats x)\<lparr>totalQueries := totalQueries (queryStats x) + 1\<rparr>\<rparr>"
  let ?xp = "?x0\<lparr>poolService := p1\<rparr>"
  have "fst (executeWithRetry env uid wid ?xp) = Inl (Thrown e_last)"
    using executeWithRetry_exhausted [of ?xp env e_last uid wid] assms(2-4) by simp
  then obtain x1 where "executeWithRetry env uid wid ?xp = (Inl (Thrown e_last), x1)"
    by (cases "executeWithRetry env uid wid ?xp") simp
  with assms(1) show ?thesis
    by (simp add: executeDAXQuery_def beginDAXQuery_def completeDAXQuery_def queryFailed_def Let_def)
qed

subsection \<open>The backoff delay\<close>

text \<open>
  Claim C8: for an attempt \<open>n \<ge> 1\<close> and a draw \<open>r\<close> in \<open>[0, 1)\<close>, with \<open>b\<close> the base delay,
  \<open>m\<close> the maximal delay and \<open>d = min(b * 2^(n-1), m)\<close>, the delay computed lies in
  \<open>[d, 1.2 * d]\<close>; it never exceeds \<open>1.2 * m\<close>; while the cap is not reached it lies in
  \<open>[b * 2^(n-1), b * 2^(n-1) * 1.2]\<close>; and both endpoints of the interval do not decrease
  from \<open>n\<close> to \<open>n + 1\<close>. Arithmetic is exact here; the two delays are whole numbers of
  milliseconds, as in the source.
\<close>

theorem calculateBackoffDelay_bounds:
  assumes "1 \<le> n" and "0 \<le> r" and "r < 1"
  shows "(let b = real (baseDelay cfg); m = real (maxDelay cfg);
              d = min (b * 2 ^ (n - 1)) m;
              delay = real_of_int (calculateBackoffDelay cfg n r)
          in d \<le> delay \<and> delay \<le> 1.2 * d \<and> delay \<le> 1.2 * m
             \<and> (b * 2 ^ (n - 1) \<le> m \<longrightarrow> b * 2 ^ (n - 1) \<le> delay \<and> delay \<le> b * 2 ^ (n - 1) * 1.2)
             \<and> d \<le> min (b * 2 ^ n) m \<and> 1.2 * d \<le> 1.2 * min (b * 2 ^ n) m)"
proof -
  define z where "z = min (int (baseDelay cfg) * 2 ^ (n - 1)) (int (maxDelay cfg))"
  define d where "d = min (real (baseDelay cfg) * 2 ^ (n - 1)) (real (maxDelay cfg))"
  have dz: "d = of_int z" by (simp add: d_def z_def of_int_min)
  have d0: "0 \<le> d" by (simp add: d_def)
  from assms(1) have base: "backoffBase cfg n = d" by (simp add: backoffBase_def d_def)
  then have calc: "calculateBackoffDelay cfg n r = \<lfloor>d + d * 0.2 * r\<rfloor>"
    by (simp add: calculateBackoffDelay_def Let_def)
  from d0 assms(2) have j0: "0 \<le> d * 0.2 * r" by simp
  from d0 assms(3) have j1: "d * 0.2 * r \<le> d * 0.2" by (simp add: mult_left_le)
  have lo: "d \<le> real_of_int (calculateBackoffDelay cfg n r)"
  proof -
    from j0 have "of_int z \<le> d + d * 0.2 * r" by (simp add: dz)
    then have "z \<le> \<lfloor>d + d * 0.2 * r\<rfloor>" by (simp add: le_floor_iff)
    then show ?thesis by (simp add: calc dz)
  qed
  have hi: "real_of_int (calculateBackoffDelay cfg n r) \<le> 1.2 * d"
  proof -
    have "real_of_int \<lfloor>d + d * 0.2 * r\<rfloor> \<le> d + d * 0.2 * r" by (rule of_int_floor_le)
    with j1 show ?thesis unfolding calc by linarith
  qed
  have dm: "d \<le> real (maxDelay cfg)" by (simp add: d_def)
  have mono: "d \<le> min (real (baseDelay cfg) * 2 ^ n) (real (maxDelay cfg))"
  proof -
    from assms(1) have "(2::real) ^ (n - 1) \<le> 2 ^ n" by (simp add: power_increasing)
    then have "real (baseDelay cfg) * 2 ^ (n - 1) \<le> real (baseDelay cfg) * 2 ^ n"
      by (simp add: mult_left_mono)
    then show ?thesis by (simp add: d_def min_def)
  qed
  from lo hi dm mono show ?thesis
    unfolding Let_def d_def [symmetric]
    by (auto simp: d_def min_def)
qed

text \<open>
  A run of the theorem above (claim C8): the second attempt with the source's
  delays and the draw one half gives 2200 ms, between 2000 and 2400.
\<close>

theorem calculateBackoffDelay_bounds_witness:
  "(1::nat) \<le> 2 \<and> (0::real) \<le> 1/2 \<and> (1/2::real) < 1
   \<and> calculateBackoffDelay (retryConfig (newExecutor 3 30000 (newPool 10))) 2 (1/2) = 2200
   \<and> (2000::real) \<le> 2200 \<and> (2200::real) \<le> 1.2 * 2000"
  using calculateBackoffDelay_bounds [of 2 "1/2" "retryConfig (newExecutor 3 30000 (newPool 10))"]
  by (simp add: newExecutor_def calculateBackoffDelay_def backoffBase_def)

subsection \<open>The row count\<close>

text \<open>
  Claim C10, as stated, promises a number that is not negative for every input. Where
  \<open>rows\<close> is a truthy value without a \<open>length\<close>, such as the number 5, the function
  returns \<open>rows.length\<close>, which is \<open>undefined\<close>.
\<close>

theorem extractRowCount_counterexample:
  "extractRowCount (\<lambda>v. None)
     (JObj [(''results'', JArr [JObj [(''tables'', JArr [JObj [(''rows'', JNum 5)]])]])])
   = JUndefined"
  by (simp add: extractRowCount_def rowCountBody_def andThen_def get_def show_nat.simps digit_def)

text \<open>
  What the function computes, in one equation; and its value on the shape the service
  documents.
\<close>

lemma length_is_count:
  "(\<exists>xs. v = JArr xs) \<or> (\<exists>s. v = JStr s) \<Longrightarrow> is_count (property v ''length'')"
  by auto

lemma extractRowCount_exact:
  "extractRowCount conv result
     = (if pathReached conv result \<and> truthy (nestedRows result)
        then property (nestedRows result) ''length'' else JNum 0)"
  by (auto simp: extractRowCount_def rowCountBody_def andThen_def get_def nestedRows_def
      pathReached_def Let_def split: sum.splits if_splits)

lemma show_nat_0: "show_nat 0 = ''0''"
  by (simp add: show_nat.simps digit_def)

lemma property_first: "property (JArr (x # xs)) ''0'' = x"
  by (simp add: upt_conv_Cons show_nat_0 del: upt_Suc)

lemma property_length: "property (JArr xs) ''length'' = JNum (int (length xs))"
  by simp

lemma extractRowCount_array:
  assumes "property result ''results'' = JArr (r0 # rs)"
    and "property r0 ''tables'' = JArr (t0 # ts)"
    and "property t0 ''rows'' = JArr rows"
  shows "extractRowCount conv result = JNum (int (length rows))"
proof -
  from assms(1) have "truthy result" by (cases result) auto
  moreover from assms(2) have "\<not> nullish r0" by (cases r0) auto
  moreover from assms(3) have "\<not> nullish t0" by (cases t0) auto
  ultimately show ?thesis using assms
    by (simp add: extractRowCount_def rowCountBody_def andThen_def get_def property_first
        property_length del: property.simps)
qed

text \<open>
  Claim C10, amended: \<open>extractRowCount\<close> returns a value for every input and never throws:
  a throw inside its body is caught and gives 0. It returns \<open>rows.length\<close> exactly when
  the path \<open>result.results[0].tables[0]\<close> is there to be read and \<open>rows\<close> at its end is
  truthy, and 0 in every other case; for \<open>results\<close> and \<open>tables\<close> non-empty arrays and
  \<open>rows\<close> an array that is the number of rows. The value is a number that is not negative
  whenever \<open>rows\<close> is an array, a string, or falsy (missing included).
\<close>

theorem extractRowCount_result:
  "extractRowCount conv result
     = (if pathReached conv result \<and> truthy (nestedRows result)
        then property (nestedRows result) ''length'' else JNum 0)
   \<and> (case rowCountBody conv result of
         Inl e \<Rightarrow> extractRowCount conv result = JNum 0
       | Inr v \<Rightarrow> extractRowCount conv result = v)
   \<and> (property result ''results'' = JArr (r0 # rs) \<and> property r0 ''tables'' = JArr (t0 # ts)
         \<and> property t0 ''rows'' = JArr rows
       \<longrightarrow> extractRowCount conv result = JNum (int (length rows)))
   \<and> ((\<exists>xs. nestedRows result = JArr xs) \<or> (\<exists>s. nestedRows result = JStr s)
         \<or> \<not> truthy (nestedRows result)
       \<longrightarrow> is_count (extractRowCount conv result))"
proof -
  have a: "extractRowCount conv result
     = (if pathReached conv result \<and> truthy (nestedRows result)
        then property (nestedRows result) ''length'' else JNum 0)"
    by (rule extractRowCount_exact)
  have b: "case rowCountBody conv result of
         Inl e \<Rightarrow> extractRowCount conv result = JNum 0
       | Inr v \<Rightarrow> extractRowCount conv result = v"
    by (simp add: extractRowCount_def split: sum.splits)
  have c: "property result ''results'' = JArr (r0 # rs) \<and> property r0 ''tables'' = JArr (t0 # ts)
         \<and> property t0 ''rows'' = JArr rows
       \<longrightarrow> extractRowCount conv result = JNum (int (length rows))"
    using extractRowCount_array [of result r0 rs t0 ts rows conv] by blast
  have d: "(\<exists>xs. nestedRows result = JArr xs) \<or> (\<exists>s. nestedRows result = JStr s)
         \<or> \<not> truthy (nestedRows result)
       \<longrightarrow> is_count (extractRowCount conv result)"
    using length_is_count [of "nestedRows result"] by (auto simp: a)
  from a b c d show ?thesis by blast
qed

text \<open>
  Two runs of the theorem above (claim C10): two rows at the nested path are counted as
  2; and where \<open>results[0]\<close> is \<open>null\<close>, the body throws and the function returns 0.
\<close>

theorem extractRowCount_result_witness:
  "(let table = JObj [(''rows'', JArr [JNull, JNull])];
        first = JObj [(''tables'', JArr [table])];
        result = JObj [(''results'', JArr [first])];
        broken = JObj [(''results'', JArr [JNull])]
    in property result ''results'' = JArr [first]
       \<and> property first ''tables'' = JArr [table]
       \<and> property table ''rows'' = JArr [JNull, JNull]
       \<and> nestedRows result = JArr [JNull, JNull]
       \<and> pathReached (\<lambda>v. None) result
       \<and> extractRowCount (\<lambda>v. None) result = JNum 2
       \<and> is_count (extractRowCount (\<lambda>v. None) result)
       \<and> (\<exists>e. rowCountBody (\<lambda>v. None) broken = Inl e)
       \<and> extractRowCount (\<lambda>v. None) broken = JNum 0)"
proof -
  let ?table = "JObj [(''rows'', JArr [JNull, JNull])]"
  let ?first = "JObj [(''tables'', JArr [?table])]"
  let ?result = "JObj [(''results'', JArr [?first])]"
  let ?broken = "JObj [(''results'', JArr [JNull])]"
  have h: "property ?result ''results'' = JArr [?first]"
    "property ?first ''tables'' = JArr [?table]"
    "property ?table ''rows'' = JArr [JNull, JNull]"
    "nestedRows ?result = JArr [JNull, JNull]"
    "pathReached (\<lambda>v. None) ?result"
    by (simp_all add: nestedRows_def pathReached_def show_nat.simps digit_def)
  have t: "\<exists>e. rowCountBody (\<lambda>v. None) ?broken = Inl e"
    by (simp add: rowCountBody_def andThen_def get_def show_nat.simps digit_def)
  have c: "extractRowCount (\<lambda>v. None) ?result = JNum (int (length [JNull, JNull]))"
    using extractRowCount_result [of "\<lambda>v. None" ?result ?first "[]" ?table "[]" "[JNull, JNull]"]
      h(1-3)
    by blast
  from t obtain e where e: "rowCountBody (\<lambda>v. None) ?broken = Inl e" ..
  have "case rowCountBody (\<lambda>v. None) ?broken of
          Inl e \<Rightarrow> extractRowCount (\<lambda>v. None) ?broken = JNum 0
        | Inr v \<Rightarrow> extractRowCount (\<lambda>v. None) ?broken = v"
    using extractRowCount_result [of "\<lambda>v. None" ?broken] by blast
  with e have z: "extractRowCount (\<lambda>v. None) ?broken = JNum 0"
    by (simp only: sum.case)
  from c z h t show ?thesis
    by (simp add: Let_def del: property.simps)
qed

section \<open>Properties of the metadata extractor\<close>

lemmas extractor_defs =
  extractTables_def extractMeasures_def extractColumns_def extractRelationships_def
  extractTablesViaREST_def extractMeasuresViaREST_def viaREST_def caught_def message_read_def
  primaryRows_def andThen_def get_def optget_def js_or_def key_at_def
  tableOfRow_def columnOfRow_def measureOfRow_def relationshipOfRow_def
  tableOfREST_def columnOfREST_def measureOfREST_def

subsection \<open>The secondary channel\<close>

text \<open>
  Claim C7, as stated, speaks of all four categories. \<open>extractColumns\<close> has no secondary
  channel: with a failed primary query and a REST service that would answer, it returns
  the empty array and requests nothing.
\<close>

theorem columns_no_secondary_counterexample:
  "extractColumns
     (Inr (JObj [(''success'', JBool False), (''query'', JStr ''EVALUATE T''),
                 (''error'', JStr ''Request failed with status code 400''),
                 (''executionTimeMs'', JNum 250)]))
     (Inr (JObj [(''value'', JArr [JObj [(''name'', JStr ''Sales'')]])]))
     ''w'' ''d''
   = (Inr (JArr []), [])"
  by (simp add: extractor_defs)

text \<open>
  Claim C7, amended: when the primary query returns a result whose \<open>success\<close> is falsy or
  which has no truthy \<open>rows\<close> at \<open>results.results[0].tables[0].rows\<close>, the extractors of
  tables and of measures request the REST endpoint of their category and return what
  that channel gives (the empty array where it fails); the extractors of columns and of
  relationships return the empty array at once, and never request anything.
\<close>

theorem secondary_channel:
  assumes "dax = Inr result" and "primaryRows result = Inr None"
  shows "snd (extractTables dax rest wid did) = [''/groups/'' @ wid @ ''/datasets/'' @ did @ ''/tables'']
       \<and> fst (extractTables dax rest wid did)
           = (case extractTablesViaREST rest of Inl t \<Rightarrow> caught t | Inr v \<Rightarrow> Inr v)
       \<and> snd (extractMeasures dax rest wid did) = [''/groups/'' @ wid @ ''/datasets/'' @ did @ ''/measures'']
       \<and> fst (extractMeasures dax rest wid did)
           = (case extractMeasuresViaREST rest of Inl t \<Rightarrow> caught t | Inr v \<Rightarrow> Inr v)
       \<and> extractColumns dax rest wid did = (Inr (JArr []), [])
       \<and> extractRelationships dax rest wid did = (Inr (JArr []), [])
       \<and> snd (extractColumns dax' rest' wid did) = []
       \<and> snd (extractRelationships dax' rest' wid did) = []"
  using assms
  by (auto simp: extractTables_def extractMeasures_def extractColumns_def extractRelationships_def
      split: sum.splits option.splits)

text \<open>
  A run of the theorem above (claim C7): the primary query failed with status 400, the
  REST service lists one table.
\<close>

theorem secondary_channel_witness:
  "(let result = JObj [(''success'', JBool False), (''query'', JStr ''EVALUATE T''),
                       (''error'', JStr ''Request failed with status code 400''),
                       (''executionTimeMs'', JNum 250)];
        rest = Inr (JObj [(''value'', JArr [JObj [(''name'', JStr ''Sales'')]])])
    in primaryRows result = Inr None
       \<and> extractTables (Inr result) rest ''w'' ''d''
           = (Inr (JArr [JObj [(''name'', JStr ''Sales''), (''type'', JStr ''TABLE''),
                               (''description'', JStr []), (''columnCount'', JNum 0),
                               (''columns'', JArr [])]]),
              [''/groups/w/datasets/d/tables''])
       \<and> snd (extractMeasures (Inr result) rest ''w'' ''d'') = [''/groups/w/datasets/d/measures''])"
proof -
  let ?result = "JObj [(''success'', JBool False), (''query'', JStr ''EVALUATE T''),
                       (''error'', JStr ''Request failed with status code 400''),
                       (''executionTimeMs'', JNum 250)]"
  let ?rest = "Inr (JObj [(''value'', JArr [JObj [(''name'', JStr ''Sales'')]])]) :: thrown + jsval"
  have h: "primaryRows ?result = Inr None" by (simp add: extractor_defs)
  from secondary_channel [OF refl h, of ?rest "''w''" "''d''"] h show ?thesis
    by (simp add: Let_def extractor_defs)
qed

text \<open>The result object of a failed query is such a result.\<close>

lemma failed_result_no_rows:
  "queryFailed q t (Thrown e) x = (Inr r, x') \<Longrightarrow> primaryRows r = Inr None"
  by (auto simp: queryFailed_def primaryRows_def andThen_def get_def Let_def)

subsection \<open>The flags of \<open>extractionMethods\<close>\<close>

text \<open>
  Claim C2 on the code. The primary query for tables answers with one row; the primary
  queries for measures, relationships and columns fail, and so does the REST service. The
  call returns, with the tables populated and the other three collections empty, but all
  four flags of \<open>extractionMethods\<close> are true: each extractor catches its own failure and
  resolves with the empty array, so \<open>Promise.allSettled\<close> sees four fulfilled promises.
\<close>

theorem extractionMethods_all_true:
  "(let failure = JObj [(''success'', JBool False), (''query'', JStr ''EVALUATE T''),
                        (''error'', JStr ''Request failed with status code 400''),
                        (''executionTimeMs'', JNum 250)];
        unavailable = Inl (Thrown (Error ''Request failed with status code 503''));
        failing = \<lparr>primary = Inr failure, secondary = unavailable\<rparr>;
        answer = JObj [(''success'', JBool True), (''query'', JStr ''EVALUATE T''),
                       (''results'', JObj [(''results'',
                           JArr [JObj [(''tables'', JArr [JObj [(''rows'',
                             JArr [JObj [(''TableName'', JStr ''Sales'')]])]])]])]),
                       (''executionTimeMs'', JNum 250)];
        out = \<lparr>found = Inr (Some \<lparr>dataset_id = ''7'', powerbi_dataset_id = ''d'',
                                    dataset_name = ''Sales model'', powerbi_workspace_id = ''w''\<rparr>),
               of_tables = \<lparr>primary = Inr answer, secondary = unavailable\<rparr>,
               of_measures = failing, of_relationships = failing, of_columns = failing,
               stored = None, startTime = 1000, extractedAt_time = 2000, endTime = 2000\<rparr>
    in case fst (extractCompleteMetadata out ''w'' ''d'') of
         Inl t \<Rightarrow> False
       | Inr md \<Rightarrow>
           tables md = JArr [JObj [(''name'', JStr ''Sales''), (''type'', JStr ''TABLE''),
                                   (''description'', JStr []), (''columnCount'', JNum 0)]]
           \<and> measures md = JArr [] \<and> relationships md = JArr [] \<and> columns md = JArr []
           \<and> extractionMethods md = \<lparr>tables_flag = True, measures_flag = True,
                                       relationships_flag = True, columns_flag = True\<rparr>)"
  by (simp add: extractCompleteMetadata_def extractor_defs settle_def fulfilled_def
      value_or_empty_def storeMetadata_def Error_def show_nat.simps digit_def)

text \<open>
  This is so on every run: as long as no awaited call rejects with the value \<open>undefined\<close>,
  the four extractors fulfil, and the flags of a call that returns are all true. A call
  returns whenever the dataset is found and the database write succeeds.
\<close>

lemma caught_fulfils: "t \<noteq> ThrownUndefined \<Longrightarrow> \<exists>v. caught t = Inr v"
  by (cases t) (simp_all add: caught_def message_read_def)

lemma viaREST_fulfils: "rest \<noteq> Inl ThrownUndefined \<Longrightarrow> \<exists>v. viaREST f rest = Inr v"
  by (auto simp: viaREST_def message_read_def split: sum.splits thrown.splits)

lemma extractors_fulfil:
  assumes "dax \<noteq> Inl ThrownUndefined" and "rest \<noteq> Inl ThrownUndefined"
  shows "(\<exists>v. fst (extractTables dax rest wid did) = Inr v)
       \<and> (\<exists>v. fst (extractMeasures dax rest wid did) = Inr v)
       \<and> (\<exists>v. fst (extractRelationships dax rest wid did) = Inr v)
       \<and> (\<exists>v. fst (extractColumns dax rest wid did) = Inr v)"
  using assms viaREST_fulfils [OF assms(2), of tableOfREST] viaREST_fulfils [OF assms(2), of measureOfREST]
  by (auto simp: extractTables_def extractMeasures_def extractColumns_def extractRelationships_def
      extractTablesViaREST_def extractMeasuresViaREST_def caught_def message_read_def
      split: sum.splits option.splits thrown.splits)

lemma extractCompleteMetadata_flags:
  assumes "fst (extractCompleteMetadata out wid did) = Inr md"
    and "primary (of_tables out) \<noteq> Inl ThrownUndefined"
        "secondary (of_tables out) \<noteq> Inl ThrownUndefined"
    and "primary (of_measures out) \<noteq> Inl ThrownUndefined"
        "secondary (of_measures out) \<noteq> Inl ThrownUndefined"
    and "primary (of_relationships out) \<noteq> Inl ThrownUndefined"
    and "primary (of_columns out) \<noteq> Inl ThrownUndefined"
  shows "extractionMethods md = \<lparr>tables_flag = True, measures_flag = True,
                                 relationships_flag = True, columns_flag = True\<rparr>"
proof -
  from extractors_fulfil [OF assms(2,3), of wid did]
  obtain t where t: "fst (extractTables (primary (of_tables out)) (secondary (of_tables out)) wid did) = Inr t"
    by blast
  from extractors_fulfil [OF assms(4,5), of wid did]
  obtain m where m: "fst (extractMeasures (primary (of_measures out)) (secondary (of_measures out)) wid did) = Inr m"
    by blast
  have r: "\<exists>r. fst (extractRelationships (primary (of_relationships out)) (secondary (of_relationships out)) wid did) = Inr r"
    using assms(6)
    by (auto simp: extractRelationships_def caught_def message_read_def
        split: sum.splits option.splits thrown.splits)
  have c: "\<exists>c. fst (extractColumns (primary (of_columns out)) (secondary (of_columns out)) wid did) = Inr c"
    using assms(7)
    by (auto simp: extractColumns_def caught_def message_read_def
        split: sum.splits option.splits thrown.splits)
  from assms(1) t m r c show ?thesis
    by (auto simp: extractCompleteMetadata_def settle_def fulfilled_def Let_def
        split: sum.splits option.splits prod.splits)
qed

lemma extractCompleteMetadata_returns:
  assumes "found out = Inr (Some ds)" and "stored out = None"
  shows "\<exists>md. fst (extractCompleteMetadata out wid did) = Inr md"
  using assms
  by (simp add: extractCompleteMetadata_def storeMetadata_def Let_def split: prod.splits)

end
